theory Spec2Isabelle
  imports Complex_Main
begin

section \<open>JavaScript values\<close>

text \<open>
  Response bodies and cached payloads are JSON values. An object keeps its keys in
  insertion order, as a JavaScript object with string keys does, so it is an
  association list. Numbers are the real values of the doubles, and sums, products
  and quotients are exact where the code rounds each to the nearest double; a \<open>NaN\<close>
  is written by \<open>JSON.stringify\<close> as \<open>null\<close>.
\<close>

datatype json =
    JNull
  | JBool bool
  | JNum real
  | JStr string
  | JArr "json list"
  | JObj "(string \<times> json) list"

type_synonym obj = "(string \<times> json) list"

text \<open>Writing a property: an existing key keeps its place, a new key goes last.\<close>

fun set_prop :: "string \<Rightarrow> json \<Rightarrow> obj \<Rightarrow> obj" where
  "set_prop k v [] = [(k, v)]"
| "set_prop k v ((k', v') # kvs) =
     (if k' = k then (k, v) # kvs else (k', v') # set_prop k v kvs)"

text \<open>The object literal \<open>{...base, k1: v1, k2: v2}\<close>.\<close>

definition spread :: "obj \<Rightarrow> obj \<Rightarrow> obj" where
  "spread base kvs = foldl (\<lambda>acc kv. set_prop (fst kv) (snd kv) acc) base kvs"

definition get_prop :: "string \<Rightarrow> obj \<Rightarrow> json option" where
  "get_prop k kvs = map_of kvs k"

definition keys :: "obj \<Rightarrow> string list" where
  "keys kvs = map fst kvs"

text \<open>
  A number that may be \<open>NaN\<close>: \<open>None\<close> is \<open>NaN\<close>. The integers of \<open>parseInt\<close> are
  \<open>int option\<close>, other numbers \<open>real option\<close>.
\<close>

definition num_json :: "real option \<Rightarrow> json" where
  "num_json x = (case x of None \<Rightarrow> JNull | Some r \<Rightarrow> JNum r)"

definition int_json :: "int option \<Rightarrow> json" where
  "int_json x = (case x of None \<Rightarrow> JNull | Some i \<Rightarrow> JNum (of_int i))"

subsection \<open>Numbers to strings\<close>

definition digit_char :: "nat \<Rightarrow> char" where
  "digit_char d = ''0123456789'' ! d"

fun show_nat :: "nat \<Rightarrow> string" where
  "show_nat n = (if n < 10 then [digit_char n] else show_nat (n div 10) @ [digit_char (n mod 10)])"

declare show_nat.simps [simp del]

definition show_int :: "int \<Rightarrow> string" where
  "show_int i = (if i < 0 then ''-'' @ show_nat (nat (- i)) else show_nat (nat i))"

text \<open>\<open>String(n)\<close> of an integer-valued number or \<open>NaN\<close>.\<close>

definition show_jsint :: "int option \<Rightarrow> string" where
  "show_jsint x = (case x of None \<Rightarrow> ''NaN'' | Some i \<Rightarrow> show_int i)"

section \<open>The daily metric\<close>

subsection \<open>Selector\<close>

datatype metric_kind = FearGreed | BtcDominance | FundingRates | OpenInterest | StablecoinSupply

text \<open>The \<open>switch (dayOfWeek)\<close> of the handler, with its \<open>default\<close> branch.\<close>

definition selector :: "nat \<Rightarrow> metric_kind" where
  "selector dayOfWeek =
     (if dayOfWeek = 1 then FearGreed
      else if dayOfWeek = 2 then BtcDominance
      else if dayOfWeek = 3 then FundingRates
      else if dayOfWeek = 4 then OpenInterest
      else StablecoinSupply)"

text \<open>The \<open>metric\<close> tag each fetcher writes into its result.\<close>

fun metric_tag :: "metric_kind \<Rightarrow> string" where
  "metric_tag FearGreed = ''fear_greed''"
| "metric_tag BtcDominance = ''btc_dominance''"
| "metric_tag FundingRates = ''funding_rates''"
| "metric_tag OpenInterest = ''open_interest''"
| "metric_tag StablecoinSupply = ''stablecoin_supply''"

text \<open>
  \<open>Date.prototype.getUTCDay\<close> of a time value in milliseconds since the epoch:
  1 January 1970 was a Thursday (day 4).
\<close>

definition getUTCDay :: "int \<Rightarrow> nat" where
  "getUTCDay t = nat ((t div 86400000 + 4) mod 7)"

subsection \<open>Strings and numbers of the fetchers\<close>

text \<open>
  Strings are byte strings, the UTF-8 encoding of the JavaScript string. Every pattern
  and delimiter of the code is ASCII, so matching on bytes and on code units agree.
  White space is ASCII white space, and lengths count bytes: on text outside ASCII
  \<open>trim\<close>, \<open>\s\<close> and \<open>substring\<close> of the code see more white space and other lengths.
\<close>

definition is_space :: "char \<Rightarrow> bool" where
  "is_space c = (c \<in> set [CHR 0x09, CHR 0x0A, CHR 0x0B, CHR 0x0C, CHR 0x0D, CHR '' ''])"

definition digit_val :: "char \<Rightarrow> nat option" where
  "digit_val c = map_of (zip ''0123456789'' [0, 1, 2, 3, 4, 5, 6, 7, 8, 9]) c"

definition hex_val :: "char \<Rightarrow> nat option" where
  "hex_val c = map_of (zip ''0123456789abcdefABCDEF''
      [0, 1, 2, 3, 4, 5, 6, 7, 8, 9, 10, 11, 12, 13, 14, 15, 10, 11, 12, 13, 14, 15]) c"

text \<open>The value of the longest prefix of digits, \<open>None\<close> when that prefix is empty.\<close>

fun digits_prefix :: "(char \<Rightarrow> nat option) \<Rightarrow> nat \<Rightarrow> nat option \<Rightarrow> string \<Rightarrow> nat option" where
  "digits_prefix dv radix acc [] = acc"
| "digits_prefix dv radix acc (c # cs) =
     (case dv c of
        None \<Rightarrow> acc
      | Some d \<Rightarrow> digits_prefix dv radix
          (Some ((case acc of None \<Rightarrow> 0 | Some a \<Rightarrow> a * radix) + d)) cs)"

text \<open>
  \<open>parseInt(s)\<close> with no radix: leading white space, a sign, a \<open>0x\<close> prefix that
  switches to base 16, then the longest run of digits; \<open>NaN\<close> when there is none.
\<close>

definition parseInt :: "string \<Rightarrow> int option" where
  "parseInt s =
     (let s1 = dropWhile is_space s;
          neg = (take 1 s1 = ''-'');
          s2 = (if take 1 s1 = ''-'' \<or> take 1 s1 = ''+'' then drop 1 s1 else s1);
          hex = (take 2 s2 = ''0x'' \<or> take 2 s2 = ''0X'');
          m = (if hex then digits_prefix hex_val 16 None (drop 2 s2)
               else digits_prefix digit_val 10 None s2)
      in case m of
           None \<Rightarrow> None
         | Some n \<Rightarrow> Some (if neg then - int n else int n))"

text \<open>
  \<open>x.toFixed(f)\<close> for \<open>|x| < 10^21\<close>: the integer \<open>n\<close> nearest to \<open>|x| * 10^f\<close>, the
  larger one on a tie, printed with \<open>f\<close> decimals; \<open>NaN\<close> prints as \<open>NaN\<close>.
\<close>

definition toFixed_digits :: "nat \<Rightarrow> real \<Rightarrow> nat" where
  "toFixed_digits f a = nat \<lfloor>a * 10 ^ f + 1 / 2\<rfloor>"

definition toFixed :: "nat \<Rightarrow> real option \<Rightarrow> string" where
  "toFixed f x =
     (case x of
        None \<Rightarrow> ''NaN''
      | Some r \<Rightarrow>
          (let m = show_nat (toFixed_digits f \<bar>r\<bar>);
               m' = (if length m \<le> f then replicate (f + 1 - length m) CHR ''0'' @ m else m);
               k = length m' - f
           in (if r < 0 then ''-'' else []) @
              (if f = 0 then m' else take k m' @ ''.'' @ drop k m')))"

text \<open>\<open>parseFloat(x.toFixed(f))\<close>: the number that string denotes.\<close>

definition toFixed_value :: "nat \<Rightarrow> real \<Rightarrow> real" where
  "toFixed_value f r = (if r < 0 then - 1 else 1) * real (toFixed_digits f \<bar>r\<bar>) / 10 ^ f"

text \<open>\<open>x || 0\<close> on a number that may be missing or \<open>null\<close>.\<close>

definition or_zero :: "real option \<Rightarrow> real" where
  "or_zero x = (case x of None \<Rightarrow> 0 | Some r \<Rightarrow> (if r \<noteq> 0 then r else 0))"

text \<open>
  What a fetcher gets from the network: the request rejects or the body is not JSON
  (an error with a message), the status is not a success, or a decoded body arrives.
  A body is typed as the provider documents it; a field the provider may leave out or
  set to \<open>null\<close> is an option.
\<close>

datatype 'a upstream = Rejected string | NotOk nat | Body 'a

text \<open>The body of CoinGecko's \<open>global\<close> endpoint, with the fields the handlers read.\<close>

record global_data =
  total_market_cap_usd :: "real option"
  total_volume_usd :: "real option"
  market_cap_change_percentage_24h_usd :: "real option"
  market_cap_percentage_btc :: "real option"
  market_cap_percentage_eth :: "real option"
  active_cryptocurrencies :: "real option"

record global_body =
  gb_data :: "global_data option"

subsection \<open>Monday: Fear and Greed\<close>

record fng_entry =
  fng_value :: string
  fng_value_classification :: string
  fng_timestamp :: string

definition getFallbackFearGreed :: obj where
  "getFallbackFearGreed =
     [(''metric'', JStr ''fear_greed''),
      (''label'', JStr ''FEAR & GREED''),
      (''value'', JStr ''65''),
      (''numericValue'', JNum 65),
      (''unit'', JStr ''/100''),
      (''subtitle'', JStr ''Greed''),
      (''context'', JStr ''Greed is building - momentum favors bulls, but watch for overextension''),
      (''interpretation'', JStr ''optimistic''),
      (''change'', JNull),
      (''history'', JArr []),
      (''historyLabel'', JStr ''6 months''),
      (''source'', JStr ''fallback'')]"

text \<open>\<open>current <= n\<close>: false when \<open>current\<close> is \<open>NaN\<close>.\<close>

definition js_le :: "int option \<Rightarrow> int \<Rightarrow> bool" where
  "js_le x n = (case x of None \<Rightarrow> False | Some v \<Rightarrow> v \<le> n)"

text \<open>The \<open>if\<close> chain that sets \<open>interpretation\<close> and \<open>context\<close>.\<close>

definition fear_greed_interpretation :: "int option \<Rightarrow> string \<times> string" where
  "fear_greed_interpretation current =
     (if js_le current 20 then
        (''bearish'', ''Extreme fear often precedes reversals - historically a buying opportunity'')
      else if js_le current 40 then
        (''cautious'', ''Fear dominates - crowd is nervous, but not panicking'')
      else if js_le current 60 then
        (''neutral'', ''Neither fear nor greed dominates - market in equilibrium'')
      else if js_le current 80 then
        (''optimistic'', ''Greed is building - momentum favors bulls, but watch for overextension'')
      else
        (''bullish'', ''Extreme greed - historically precedes corrections. Caution warranted''))"

text \<open>Every seventh entry, starting with the first: the indices \<open>0, 7, 14, ...\<close>.\<close>

fun every_seventh :: "'a list \<Rightarrow> 'a list" where
  "every_seventh [] = []"
| "every_seventh (x # xs) = x # every_seventh (drop 6 xs)"

text \<open>
  One point of the history. \<open>new Date(ms).toISOString()\<close> throws a \<open>RangeError\<close> when
  \<open>ms\<close> is \<open>NaN\<close> or beyond 8.64e15 in magnitude; the text of a valid date is the
  parameter \<open>isoText\<close>.
\<close>

definition fg_history_point :: "(int \<Rightarrow> string) \<Rightarrow> fng_entry \<Rightarrow> json option" where
  "fg_history_point isoText e =
     (case parseInt (fng_timestamp e) of
        None \<Rightarrow> None
      | Some s \<Rightarrow>
          (if \<bar>s * 1000\<bar> \<le> 8640000000000000
           then Some (JObj [(''value'', int_json (parseInt (fng_value e))),
                            (''date'', JStr (isoText (s * 1000)))])
           else None))"

text \<open>\<open>current - thirtyDaysAgo\<close>, \<open>NaN\<close> when either is.\<close>

definition js_sub :: "int option \<Rightarrow> int option \<Rightarrow> int option" where
  "js_sub a b = (case (a, b) of (Some x, Some y) \<Rightarrow> Some (x - y) | _ \<Rightarrow> None)"

definition fg_change :: "int option \<Rightarrow> json" where
  "fg_change change =
     (if change \<noteq> Some 0
      then JStr ((if (case change of None \<Rightarrow> False | Some c \<Rightarrow> c > 0)
                  then ''+'' @ show_jsint change else show_jsint change) @ '' vs 30d ago'')
      else JNull)"

definition getFearAndGreed :: "(int \<Rightarrow> string) \<Rightarrow> fng_entry list upstream \<Rightarrow> obj" where
  "getFearAndGreed isoText up =
     (case up of
        Rejected _ \<Rightarrow> getFallbackFearGreed
      | NotOk _ \<Rightarrow> getFallbackFearGreed
      | Body data \<Rightarrow>
          (case data of
             [] \<Rightarrow> getFallbackFearGreed
           | d0 # _ \<Rightarrow>
               (let current = parseInt (fng_value d0);
                    classification = fng_value_classification d0
                in case those (map (fg_history_point isoText) (take 26 (every_seventh data))) of
                     None \<Rightarrow> getFallbackFearGreed
                   | Some history \<Rightarrow>
                       (let thirtyDaysAgo =
                              (if 29 < length data then parseInt (fng_value (data ! 29)) else current);
                            change = js_sub current thirtyDaysAgo;
                            ic = fear_greed_interpretation current
                        in [(''metric'', JStr ''fear_greed''),
                            (''label'', JStr ''FEAR & GREED''),
                            (''value'', JStr (show_jsint current)),
                            (''numericValue'', int_json current),
                            (''unit'', JStr ''/100''),
                            (''subtitle'', JStr classification),
                            (''context'', JStr (snd ic)),
                            (''interpretation'', JStr (fst ic)),
                            (''change'', fg_change change),
                            (''history'', JArr (rev history)),
                            (''historyLabel'', JStr ''6 months''),
                            (''source'', JStr ''alternative.me'')]))))"

subsection \<open>Tuesday: BTC dominance\<close>

definition btc_dominance_interpretation :: "real \<Rightarrow> string \<times> string" where
  "btc_dominance_interpretation dominance =
     (if dominance \<ge> 55 then
        (''risk-off'', ''Capital favoring Bitcoin over alts - flight to quality, risk-off positioning'')
      else if dominance \<ge> 50 then
        (''balanced'', ''Healthy Bitcoin leadership - alts following, not leading'')
      else if dominance \<ge> 45 then
        (''risk-on'', ''Capital rotating to alts - risk appetite increasing'')
      else
        (''alt-season'', ''Alt season signals - historically unsustainable, late-cycle behavior''))"

definition fallbackBTCDominance :: obj where
  "fallbackBTCDominance =
     [(''metric'', JStr ''btc_dominance''),
      (''label'', JStr ''BTC DOMINANCE''),
      (''value'', JStr ''52.0''),
      (''numericValue'', JNum 52),
      (''unit'', JStr ''%''),
      (''subtitle'', JStr ''ETH: 18.5%''),
      (''context'', JStr ''Healthy Bitcoin leadership - alts following, not leading''),
      (''interpretation'', JStr ''balanced''),
      (''change'', JNull),
      (''history'', JArr []),
      (''historyLabel'', JStr ''6 months''),
      (''source'', JStr ''fallback'')]"

definition getBTCDominance :: "global_body upstream \<Rightarrow> obj" where
  "getBTCDominance up =
     (case up of
        Rejected _ \<Rightarrow> fallbackBTCDominance
      | NotOk _ \<Rightarrow> fallbackBTCDominance
      | Body json \<Rightarrow>
          (let dominance = or_zero (Option.bind (gb_data json) market_cap_percentage_btc);
               ethDominance = or_zero (Option.bind (gb_data json) market_cap_percentage_eth);
               ic = btc_dominance_interpretation dominance
           in [(''metric'', JStr ''btc_dominance''),
               (''label'', JStr ''BTC DOMINANCE''),
               (''value'', JStr (toFixed 1 (Some dominance))),
               (''numericValue'', JNum dominance),
               (''unit'', JStr ''%''),
               (''subtitle'', JStr (''ETH: '' @ toFixed 1 (Some ethDominance) @ ''%'')),
               (''context'', JStr (snd ic)),
               (''interpretation'', JStr (fst ic)),
               (''change'', JNull),
               (''history'', JArr []),
               (''historyLabel'', JStr ''6 months''),
               (''source'', JStr ''coingecko'')]))"

subsection \<open>Wednesday: funding rates\<close>

text \<open>
  A row of the CoinGlass answer: its symbol and, when present, the list of exchanges,
  each with a rate that may be missing.
\<close>

record funding_row =
  fr_symbol :: string
  fr_uMarginList :: "real option list option"

text \<open>The sign \<open>\<approx>\<close> (U+2248) and the middle dot (U+00B7) in UTF-8.\<close>

definition approx_sign :: string where
  "approx_sign = [CHR 0xE2, CHR 0x89, CHR 0x88]"

definition middle_dot :: string where
  "middle_dot = [CHR 0xC2, CHR 0xB7]"

definition getFallbackFundingRates :: obj where
  "getFallbackFundingRates =
     [(''metric'', JStr ''funding_rates''),
      (''label'', JStr ''FUNDING RATE''),
      (''value'', JStr ''0.0100''),
      (''numericValue'', JNum (1 / 100)),
      (''unit'', JStr ''%''),
      (''subtitle'', JStr (approx_sign @ '' 11% APR'')),
      (''context'', JStr ''Modest long bias - healthy bullish positioning''),
      (''interpretation'', JStr ''bullish-bias''),
      (''change'', JNull),
      (''history'', JArr []),
      (''historyLabel'', JStr ''30 days''),
      (''source'', JStr ''fallback'')]"

text \<open>
  \<open>uMarginList?.reduce((sum, ex) => sum + (ex.rate || 0), 0) / (uMarginList?.length || 1)\<close>:
  \<open>NaN\<close> when the list is missing (\<open>undefined / 1\<close>).
\<close>

definition funding_avgRate :: "real option list option \<Rightarrow> real option" where
  "funding_avgRate uMarginList =
     (case uMarginList of
        None \<Rightarrow> None
      | Some exs \<Rightarrow>
          Some (foldl (\<lambda>sum ex. sum + or_zero ex) 0 exs /
                (if length exs \<noteq> 0 then real (length exs) else 1)))"

definition funding_annualized :: "real option \<Rightarrow> real option" where
  "funding_annualized avgRate = map_option (\<lambda>r. r * 3 * 365) avgRate"

text \<open>\<open>avgRate > t\<close>: false when \<open>avgRate\<close> is \<open>NaN\<close>.\<close>

definition js_gt :: "real option \<Rightarrow> real \<Rightarrow> bool" where
  "js_gt x t = (case x of None \<Rightarrow> False | Some r \<Rightarrow> r > t)"

definition funding_interpretation :: "real option \<Rightarrow> string \<times> string" where
  "funding_interpretation avgRate =
     (if js_gt avgRate (3 / 10000) then
        (''crowded-long'', ''Longs paying heavily - crowded trade. Squeeze risk if price drops'')
      else if js_gt avgRate (1 / 10000) then
        (''bullish-bias'', ''Modest long bias - healthy bullish positioning'')
      else if js_gt avgRate (- (1 / 10000)) then
        (''neutral'', ''Funding neutral - no strong directional bias in derivatives'')
      else if js_gt avgRate (- (3 / 10000)) then
        (''bearish-bias'', ''Shorts paying - contrarian signal, potential squeeze setup'')
      else
        (''crowded-short'', ''Extreme negative funding - shorts crowded, squeeze likely''))"

definition getFundingRates :: "funding_row list option upstream \<Rightarrow> obj" where
  "getFundingRates up =
     (case up of
        Rejected _ \<Rightarrow> getFallbackFundingRates
      | NotOk _ \<Rightarrow> getFallbackFundingRates
      | Body data \<Rightarrow>
          (case (case data of None \<Rightarrow> None | Some rows \<Rightarrow> find (\<lambda>d. fr_symbol d = ''BTC'') rows) of
             None \<Rightarrow> getFallbackFundingRates
           | Some btcData \<Rightarrow>
               (let avgRate = funding_avgRate (fr_uMarginList btcData);
                    annualized = funding_annualized avgRate;
                    displayRate = toFixed 4 (map_option (\<lambda>r. r * 100) avgRate);
                    ic = funding_interpretation avgRate
                in [(''metric'', JStr ''funding_rates''),
                    (''label'', JStr ''FUNDING RATE''),
                    (''value'', JStr displayRate),
                    (''numericValue'', num_json (map_option (\<lambda>r. r * 100) avgRate)),
                    (''unit'', JStr ''%''),
                    (''subtitle'', JStr (approx_sign @ '' '' @ toFixed 0 annualized @ ''% APR'')),
                    (''context'', JStr (snd ic)),
                    (''interpretation'', JStr (fst ic)),
                    (''change'', JNull),
                    (''history'', JArr []),
                    (''historyLabel'', JStr ''30 days''),
                    (''source'', JStr ''coinglass'')])))"

subsection \<open>Thursday: open interest\<close>

record oi_row =
  oi_symbol :: string
  oi_openInterest :: "real option"
  oi_h24Change :: "real option"

definition getFallbackOpenInterest :: obj where
  "getFallbackOpenInterest =
     [(''metric'', JStr ''open_interest''),
      (''label'', JStr ''OPEN INTEREST''),
      (''value'', JStr ''18.5''),
      (''numericValue'', JNum (185 / 10)),
      (''unit'', JStr ''B''),
      (''subtitle'', JStr ''+2.3% 24h''),
      (''context'', JStr ''Healthy leverage levels - normal market structure''),
      (''interpretation'', JStr ''normal''),
      (''change'', JNull),
      (''history'', JArr []),
      (''historyLabel'', JStr ''6 months''),
      (''source'', JStr ''fallback'')]"

definition open_interest_interpretation :: "real \<Rightarrow> string \<times> string" where
  "open_interest_interpretation totalOI =
     (if totalOI > 20000000000 then
        (''elevated-risk'', ''Leverage extended - high OI means violent moves possible on liquidations'')
      else if totalOI > 15000000000 then
        (''normal'', ''Healthy leverage levels - normal market structure'')
      else
        (''low-leverage'', ''Low leverage - market less prone to cascading liquidations''))"

definition getOpenInterest :: "oi_row list option upstream \<Rightarrow> obj" where
  "getOpenInterest up =
     (case up of
        Rejected _ \<Rightarrow> getFallbackOpenInterest
      | NotOk _ \<Rightarrow> getFallbackOpenInterest
      | Body data \<Rightarrow>
          (case (case data of None \<Rightarrow> None | Some rows \<Rightarrow> find (\<lambda>d. oi_symbol d = ''BTC'') rows) of
             None \<Rightarrow> getFallbackOpenInterest
           | Some btcData \<Rightarrow>
               (let totalOI = or_zero (oi_openInterest btcData);
                    displayValue = toFixed 1 (Some (totalOI / 1000000000));
                    change24h = or_zero (oi_h24Change btcData);
                    ic = open_interest_interpretation totalOI
                in [(''metric'', JStr ''open_interest''),
                    (''label'', JStr ''OPEN INTEREST''),
                    (''value'', JStr displayValue),
                    (''numericValue'', JNum (toFixed_value 1 (totalOI / 1000000000))),
                    (''unit'', JStr ''B''),
                    (''subtitle'', JStr ((if change24h \<ge> 0 then ''+'' else []) @
                                         toFixed 1 (Some change24h) @ ''% 24h'')),
                    (''context'', JStr (snd ic)),
                    (''interpretation'', JStr (fst ic)),
                    (''change'', JNull),
                    (''history'', JArr []),
                    (''historyLabel'', JStr ''6 months''),
                    (''source'', JStr ''coinglass'')])))"

subsection \<open>Friday and the weekend: stablecoin supply\<close>

text \<open>A coin of the CoinGecko market list; a number the provider does not know is \<open>null\<close>.\<close>

record stable_coin =
  sc_symbol :: string
  sc_market_cap :: "real option"
  sc_market_cap_change_percentage_24h :: "real option"

definition fallbackStablecoinSupply :: obj where
  "fallbackStablecoinSupply =
     [(''metric'', JStr ''stablecoin_supply''),
      (''label'', JStr ''STABLECOIN SUPPLY''),
      (''value'', JStr ''150''),
      (''numericValue'', JNum 150),
      (''unit'', JStr ''B''),
      (''subtitle'', JStr (''USDT: $83B '' @ middle_dot @ '' USDC: $42B'')),
      (''context'', JStr ''Dry powder stable - capital waiting on sidelines for opportunity''),
      (''interpretation'', JStr ''neutral''),
      (''change'', JNull),
      (''history'', JArr []),
      (''historyLabel'', JStr ''12 months''),
      (''source'', JStr ''fallback'')]"

definition stablecoin_interpretation :: "real option \<Rightarrow> string \<times> string" where
  "stablecoin_interpretation avgChange =
     (if js_gt avgChange (1 / 2) then
        (''accumulating'', ''Fresh capital entering - stablecoin minting signals buying preparation'')
      else if js_gt avgChange (- (1 / 2)) then
        (''neutral'', ''Dry powder stable - capital waiting on sidelines for opportunity'')
      else
        (''deploying'', ''Stablecoins converting to crypto - capital being deployed''))"

text \<open>\<open>coin ? (coin.market_cap / 1e9).toFixed(0) : '?'\<close>; \<open>null / 1e9\<close> is 0.\<close>

definition stablecoin_cap :: "stable_coin option \<Rightarrow> string" where
  "stablecoin_cap coin =
     (case coin of
        None \<Rightarrow> ''?''
      | Some c \<Rightarrow>
          toFixed 0 (Some ((case sc_market_cap c of None \<Rightarrow> 0 | Some m \<Rightarrow> m) / 1000000000)))"

text \<open>The average change: the sum over the number of coins, \<open>0 / 0 = NaN\<close> for no coins.\<close>

definition stablecoin_avgChange :: "stable_coin list \<Rightarrow> real option" where
  "stablecoin_avgChange coins =
     (if length coins = 0 then None
      else Some (foldl (\<lambda>sum c. sum + or_zero (sc_market_cap_change_percentage_24h c)) 0 coins /
                 real (length coins)))"

definition stablecoin_change :: "real option \<Rightarrow> json" where
  "stablecoin_change avgChange =
     (if avgChange \<noteq> Some 0
      then JStr ((if (case avgChange of None \<Rightarrow> False | Some a \<Rightarrow> a \<ge> 0) then ''+'' else []) @
                 toFixed 2 avgChange @ ''% 24h'')
      else JNull)"

definition getStablecoinSupply :: "stable_coin list upstream \<Rightarrow> obj" where
  "getStablecoinSupply up =
     (case up of
        Rejected _ \<Rightarrow> fallbackStablecoinSupply
      | NotOk _ \<Rightarrow> fallbackStablecoinSupply
      | Body coins \<Rightarrow>
          (let totalSupply = foldl (\<lambda>sum coin. sum + or_zero (sc_market_cap coin)) 0 coins;
               displayValue = toFixed 0 (Some (totalSupply / 1000000000));
               usdt = find (\<lambda>c. sc_symbol c = ''usdt'') coins;
               usdc = find (\<lambda>c. sc_symbol c = ''usdc'') coins;
               usdtCap = stablecoin_cap usdt;
               usdcCap = stablecoin_cap usdc;
               avgChange = stablecoin_avgChange coins;
               ic = stablecoin_interpretation avgChange
           in [(''metric'', JStr ''stablecoin_supply''),
               (''label'', JStr ''STABLECOIN SUPPLY''),
               (''value'', JStr displayValue),
               (''numericValue'', JNum (toFixed_value 0 (totalSupply / 1000000000))),
               (''unit'', JStr ''B''),
               (''subtitle'', JStr (''USDT: $'' @ usdtCap @ ''B '' @ middle_dot @
                                    '' USDC: $'' @ usdcCap @ ''B'')),
               (''context'', JStr (snd ic)),
               (''interpretation'', JStr (fst ic)),
               (''change'', stablecoin_change avgChange),
               (''history'', JArr []),
               (''historyLabel'', JStr ''12 months''),
               (''source'', JStr ''coingecko'')]))"

subsection \<open>The handler of the daily metric\<close>

text \<open>A response: the status, the headers set, and the JSON body (none after \<open>end()\<close>).\<close>

record response =
  status :: nat
  headers :: "(string \<times> string) list"
  body :: "json option"

text \<open>
  What one invocation reads from outside: the clock (the time value of \<open>new Date()\<close>
  and the text of \<open>new Date().toISOString()\<close> when the response is built), the text of
  a date, and what each provider answers.
\<close>

record daily_env =
  de_now :: int
  de_updated :: string
  de_isoText :: "int \<Rightarrow> string"
  de_fear_greed :: "fng_entry list upstream"
  de_global :: "global_body upstream"
  de_funding :: "funding_row list option upstream"
  de_open_interest :: "oi_row list option upstream"
  de_stablecoins :: "stable_coin list upstream"

definition the_number_headers :: "(string \<times> string) list" where
  "the_number_headers =
     [(''Access-Control-Allow-Origin'', ''*''),
      (''Access-Control-Allow-Methods'', ''GET''),
      (''Cache-Control'', ''s-maxage=86400, stale-while-revalidate=3600'')]"

text \<open>The object of the handler's \<open>catch\<close> block, for an error with message \<open>msg\<close>.\<close>

definition the_number_fallback :: "string \<Rightarrow> obj" where
  "the_number_fallback msg =
     [(''metric'', JStr ''stablecoin_supply''),
      (''label'', JStr ''STABLECOIN SUPPLY''),
      (''value'', JStr ''$150B''),
      (''numericValue'', JNum 150),
      (''unit'', JStr ''B''),
      (''context'', JStr ''Dry powder on the sidelines''),
      (''interpretation'', JStr ''neutral''),
      (''change'', JNull),
      (''history'', JArr []),
      (''source'', JStr ''fallback''),
      (''error'', JStr msg)]"

text \<open>
  The \<open>try\<close> block: the fetcher of the day, then the response object. Every fetcher
  catches its own failures, so the block has no throwing step; its result is \<open>Inr\<close>.
\<close>

definition the_number_try :: "daily_env \<Rightarrow> string + obj" where
  "the_number_try env =
     (let dayOfWeek = getUTCDay (de_now env);
          data = (case selector dayOfWeek of
                    FearGreed \<Rightarrow> getFearAndGreed (de_isoText env) (de_fear_greed env)
                  | BtcDominance \<Rightarrow> getBTCDominance (de_global env)
                  | FundingRates \<Rightarrow> getFundingRates (de_funding env)
                  | OpenInterest \<Rightarrow> getOpenInterest (de_open_interest env)
                  | StablecoinSupply \<Rightarrow> getStablecoinSupply (de_stablecoins env))
      in Inr (spread data [(''dayOfWeek'', JNum (real dayOfWeek)),
                           (''updated'', JStr (de_updated env))]))"

definition handler_the_number :: "daily_env \<Rightarrow> response" where
  "handler_the_number env =
     (case the_number_try env of
        Inr obj \<Rightarrow> \<lparr>status = 200, headers = the_number_headers, body = Some (JObj obj)\<rparr>
      | Inl msg \<Rightarrow> \<lparr>status = 200, headers = the_number_headers,
                     body = Some (JObj (the_number_fallback msg))\<rparr>)"

text \<open>The upstream requests one invocation makes: one, to the provider of the day.\<close>

definition the_number_requests :: "daily_env \<Rightarrow> string list" where
  "the_number_requests env =
     (case selector (getUTCDay (de_now env)) of
        FearGreed \<Rightarrow> [''https://api.alternative.me/fng/?limit=180'']
      | BtcDominance \<Rightarrow> [''https://api.coingecko.com/api/v3/global'']
      | FundingRates \<Rightarrow> [''https://open-api.coinglass.com/public/v2/funding'']
      | OpenInterest \<Rightarrow> [''https://open-api.coinglass.com/public/v2/open_interest'']
      | StablecoinSupply \<Rightarrow>
          [''https://api.coingecko.com/api/v3/coins/markets?vs_currency=usd&category=stablecoins&order=market_cap_desc&per_page=10&page=1''])"

section \<open>The cache-aside handlers\<close>

text \<open>
  The module-level \<open>cache\<close> variable: \<open>data\<close> is \<open>null\<close> until a fetch succeeds.
  A handler takes the cache and what the invocation reads from outside, and returns
  the response, the cache it leaves and the upstream requests it issued.
\<close>

record cache =
  c_data :: "obj option"
  c_timestamp :: int

definition empty_cache :: cache where
  "empty_cache = \<lparr>c_data = None, c_timestamp = 0\<rparr>"

record 's result =
  res :: response
  next_cache :: 's
  requests :: "string list"

text \<open>
  \<open>Math.round((now - timestamp) / 1000)\<close> on integer milliseconds: \<open>Math.round\<close> takes
  the nearest integer and the larger one on a tie.
\<close>

definition cacheAge :: "int \<Rightarrow> int \<Rightarrow> int" where
  "cacheAge now ts = (now - ts + 500) div 1000"

definition stale_error :: string where
  "stale_error = ''Using stale data due to API error''"

subsection \<open>Market snapshot\<close>

definition CACHE_DURATION_market :: int where
  "CACHE_DURATION_market = 5 * 60 * 1000"

record simple_price =
  usd :: "real option"
  usd_24h_change :: "real option"
  usd_market_cap :: "real option"

record price_body =
  bitcoin :: "simple_price option"
  ethereum :: "simple_price option"

record price_data =
  pd_btc :: json
  pd_eth :: json

definition price_url :: string where
  "price_url = ''https://api.coingecko.com/api/v3/simple/price?ids=bitcoin,ethereum&vs_currencies=usd&include_24hr_change=true&include_market_cap=true''"

definition global_url :: string where
  "global_url = ''https://api.coingecko.com/api/v3/global''"

definition price_entry :: "simple_price option \<Rightarrow> json" where
  "price_entry c =
     JObj [(''price'', JNum (or_zero (Option.bind c usd))),
           (''change24h'', JNum (or_zero (Option.bind c usd_24h_change))),
           (''marketCap'', JNum (or_zero (Option.bind c usd_market_cap)))]"

definition fetchPrices :: "price_body upstream \<Rightarrow> string + price_data" where
  "fetchPrices up =
     (case up of
        Rejected msg \<Rightarrow> Inl msg
      | NotOk st \<Rightarrow> Inl (''CoinGecko price API failed: '' @ show_nat st)
      | Body data \<Rightarrow>
          Inr \<lparr>pd_btc = price_entry (bitcoin data), pd_eth = price_entry (ethereum data)\<rparr>)"

definition fetchGlobalData :: "global_body upstream \<Rightarrow> string + json" where
  "fetchGlobalData up =
     (case up of
        Rejected msg \<Rightarrow> Inl msg
      | NotOk st \<Rightarrow> Inl (''CoinGecko global API failed: '' @ show_nat st)
      | Body data \<Rightarrow>
          (let global = gb_data data
           in Inr (JObj
                [(''totalMarketCap'', JNum (or_zero (Option.bind global total_market_cap_usd))),
                 (''totalVolume24h'', JNum (or_zero (Option.bind global total_volume_usd))),
                 (''marketCapChange24h'',
                    JNum (or_zero (Option.bind global market_cap_change_percentage_24h_usd))),
                 (''btcDominance'', JNum (or_zero (Option.bind global market_cap_percentage_btc))),
                 (''ethDominance'', JNum (or_zero (Option.bind global market_cap_percentage_eth))),
                 (''activeCryptos'', JNum (or_zero (Option.bind global active_cryptocurrencies)))])))"

text \<open>
  \<open>await Promise.all([a, b])\<close>: both values, or the error of one that rejected (the
  first in the list, where the source's is the first in time).
\<close>

definition promise_all2 :: "string + 'a \<Rightarrow> string + 'b \<Rightarrow> string + ('a \<times> 'b)" where
  "promise_all2 a b =
     (case a of
        Inl e \<Rightarrow> Inl e
      | Inr x \<Rightarrow> (case b of Inl e \<Rightarrow> Inl e | Inr y \<Rightarrow> Inr (x, y)))"

text \<open>
  The clock is read at entry (\<open>now\<close>), when the fresh object is built (\<open>updated\<close>), and
  again inside \<open>getFallbackData\<close>.
\<close>

record market_env =
  me_now :: int
  me_prices :: "price_body upstream"
  me_global :: "global_body upstream"
  me_updated :: string
  me_fallback_updated :: string
  me_fallback_now :: int

definition market_headers :: "(string \<times> string) list" where
  "market_headers =
     [(''Access-Control-Allow-Origin'', ''*''),
      (''Access-Control-Allow-Methods'', ''GET''),
      (''Cache-Control'', ''s-maxage=300, stale-while-revalidate=60'')]"

definition getFallbackData :: "string \<Rightarrow> int \<Rightarrow> obj" where
  "getFallbackData updated now =
     [(''btc'', JObj [(''price'', JNum 97500), (''change24h'', JNum 0),
                      (''marketCap'', JNum 1920000000000)]),
      (''eth'', JObj [(''price'', JNum 3650), (''change24h'', JNum 0),
                      (''marketCap'', JNum 440000000000)]),
      (''market'', JObj [(''totalMarketCap'', JNum 3500000000000),
                         (''totalVolume24h'', JNum 150000000000),
                         (''marketCapChange24h'', JNum 0),
                         (''btcDominance'', JNum (548 / 10)),
                         (''ethDominance'', JNum (125 / 10)),
                         (''activeCryptos'', JNum 10000)]),
      (''updated'', JStr updated),
      (''updatedTimestamp'', JNum (of_int now)),
      (''cached'', JBool False),
      (''fallback'', JBool True)]"

text \<open>\<open>await Promise.all([fetchPrices(), fetchGlobalData()])\<close>.\<close>

definition market_fetch :: "market_env \<Rightarrow> string + (price_data \<times> json)" where
  "market_fetch env = promise_all2 (fetchPrices (me_prices env)) (fetchGlobalData (me_global env))"

text \<open>The object \<open>freshData\<close> that is cached and served.\<close>

definition market_freshData :: "price_data \<Rightarrow> json \<Rightarrow> string \<Rightarrow> int \<Rightarrow> obj" where
  "market_freshData priceData globalData updated now =
     [(''btc'', pd_btc priceData),
      (''eth'', pd_eth priceData),
      (''market'', globalData),
      (''updated'', JStr updated),
      (''updatedTimestamp'', JNum (of_int now))]"

text \<open>The \<open>try\<close> and \<open>catch\<close> blocks: fetch, store and serve, or serve what there is.\<close>

definition market_refresh :: "market_env \<Rightarrow> cache \<Rightarrow> cache result" where
  "market_refresh env cache =
     (let now = me_now env in
      case market_fetch env of
        Inr (priceData, globalData) \<Rightarrow>
          (let freshData = market_freshData priceData globalData (me_updated env) now
           in \<lparr>res = \<lparr>status = 200, headers = market_headers,
                       body = Some (JObj (spread freshData [(''cached'', JBool False)]))\<rparr>,
               next_cache = \<lparr>c_data = Some freshData, c_timestamp = now\<rparr>,
               requests = [price_url, global_url]\<rparr>)
      | Inl error \<Rightarrow>
          (case c_data cache of
             Some data \<Rightarrow>
               \<lparr>res = \<lparr>status = 200, headers = market_headers,
                        body = Some (JObj (spread data
                          [(''cached'', JBool True),
                           (''stale'', JBool True),
                           (''cacheAge'', JNum (of_int (cacheAge now (c_timestamp cache)))),
                           (''error'', JStr stale_error)]))\<rparr>,
                next_cache = cache, requests = [price_url, global_url]\<rparr>
           | None \<Rightarrow>
               \<lparr>res = \<lparr>status = 200, headers = market_headers,
                        body = Some (JObj (getFallbackData (me_fallback_updated env)
                                             (me_fallback_now env)))\<rparr>,
                next_cache = cache, requests = [price_url, global_url]\<rparr>))"

text \<open>The served object of a fresh cache entry.\<close>

definition cached_body :: "obj \<Rightarrow> int \<Rightarrow> int \<Rightarrow> json" where
  "cached_body data now ts =
     JObj (spread data [(''cached'', JBool True),
                        (''cacheAge'', JNum (of_int (cacheAge now ts)))])"

definition handler_market_cache :: "market_env \<Rightarrow> cache \<Rightarrow> cache result" where
  "handler_market_cache env cache =
     (let now = me_now env in
      case c_data cache of
        Some data \<Rightarrow>
          (if now - c_timestamp cache < CACHE_DURATION_market then
             \<lparr>res = \<lparr>status = 200, headers = market_headers,
                      body = Some (cached_body data now (c_timestamp cache))\<rparr>,
              next_cache = cache, requests = []\<rparr>
           else market_refresh env cache)
      | None \<Rightarrow> market_refresh env cache)"

text \<open>The cache after a sequence of invocations, each with its own environment.\<close>

fun market_calls :: "market_env list \<Rightarrow> cache \<Rightarrow> cache" where
  "market_calls [] cache = cache"
| "market_calls (env # envs) cache = market_calls envs (next_cache (handler_market_cache env cache))"

subsection \<open>Top 100 coins\<close>

definition CACHE_DURATION_coins :: int where
  "CACHE_DURATION_coins = 15 * 60 * 1000"

text \<open>
  \<open>fetchTop100Coins\<close> renames the fields of each coin one to one; its result, the
  list of coins or the error it throws, enters as input.
\<close>

record coins_env =
  ce_now :: int
  ce_coins :: "string + json list"
  ce_updated :: string

definition coins_headers :: "(string \<times> string) list" where
  "coins_headers =
     [(''Access-Control-Allow-Origin'', ''*''),
      (''Access-Control-Allow-Methods'', ''GET''),
      (''Cache-Control'', ''s-maxage=900, stale-while-revalidate=300'')]"

definition coins_url :: string where
  "coins_url = ''https://api.coingecko.com/api/v3/coins/markets?vs_currency=usd&order=market_cap_desc&per_page=100&page=1&sparkline=false&price_change_percentage=24h%2C7d%2C30d''"

definition coins_freshData :: "json list \<Rightarrow> string \<Rightarrow> int \<Rightarrow> obj" where
  "coins_freshData coins updated now =
     [(''coins'', JArr coins),
      (''count'', JNum (real (length coins))),
      (''updated'', JStr updated),
      (''updatedTimestamp'', JNum (of_int now))]"

definition coins_refresh :: "coins_env \<Rightarrow> cache \<Rightarrow> cache result" where
  "coins_refresh env cache =
     (let now = ce_now env in
      case ce_coins env of
        Inr coins \<Rightarrow>
          (let freshData = coins_freshData coins (ce_updated env) now
           in \<lparr>res = \<lparr>status = 200, headers = coins_headers,
                       body = Some (JObj (spread freshData [(''cached'', JBool False)]))\<rparr>,
               next_cache = \<lparr>c_data = Some freshData, c_timestamp = now\<rparr>,
               requests = [coins_url]\<rparr>)
      | Inl error \<Rightarrow>
          (case c_data cache of
             Some data \<Rightarrow>
               \<lparr>res = \<lparr>status = 200, headers = coins_headers,
                        body = Some (JObj (spread data
                          [(''cached'', JBool True),
                           (''stale'', JBool True),
                           (''cacheAge'', JNum (of_int (cacheAge now (c_timestamp cache)))),
                           (''error'', JStr stale_error)]))\<rparr>,
                next_cache = cache, requests = [coins_url]\<rparr>
           | None \<Rightarrow>
               \<lparr>res = \<lparr>status = 500, headers = coins_headers,
                        body = Some (JObj [(''error'', JStr ''Failed to fetch coin data''),
                                           (''coins'', JArr []),
                                           (''count'', JNum 0)])\<rparr>,
                next_cache = cache, requests = [coins_url]\<rparr>))"

definition handler_coins_cache :: "coins_env \<Rightarrow> cache \<Rightarrow> cache result" where
  "handler_coins_cache env cache =
     (let now = ce_now env in
      case c_data cache of
        Some data \<Rightarrow>
          (if now - c_timestamp cache < CACHE_DURATION_coins then
             \<lparr>res = \<lparr>status = 200, headers = coins_headers,
                      body = Some (cached_body data now (c_timestamp cache))\<rparr>,
              next_cache = cache, requests = []\<rparr>
           else coins_refresh env cache)
      | None \<Rightarrow> coins_refresh env cache)"

subsection \<open>Personal data\<close>

text \<open>The personal cache is keyed by the calendar day, \<open>YYYY-MM-DD\<close> in UTC.\<close>

record personal_cache =
  pc_data :: "obj option"
  pc_timestamp :: int
  pc_date :: "string option"

definition empty_personal_cache :: personal_cache where
  "empty_personal_cache = \<lparr>pc_data = None, pc_timestamp = 0, pc_date = None\<rparr>"

text \<open>
  \<open>fetchCoinsWithHistory\<close> and \<open>fetchMarketHistory\<close> rename provider fields one to
  one; their results enter as input, with the day \<open>today\<close> read from the clock.
\<close>

record personal_env =
  pe_now :: int
  pe_today :: string
  pe_coins :: "string + json"
  pe_marketHistory :: "string + json"
  pe_updated :: string

definition personal_headers :: "(string \<times> string) list" where
  "personal_headers =
     [(''Access-Control-Allow-Origin'', ''*''),
      (''Access-Control-Allow-Methods'', ''GET''),
      (''Cache-Control'', ''s-maxage=86400, stale-while-revalidate=3600'')]"

definition personal_coins_url :: string where
  "personal_coins_url = ''https://api.coingecko.com/api/v3/coins/markets?vs_currency=usd&order=market_cap_desc&per_page=100&page=1&sparkline=true&price_change_percentage=1h%2C24h%2C7d%2C14d%2C30d%2C90d%2C1y''"

definition personal_freshData :: "json \<Rightarrow> json \<Rightarrow> string \<Rightarrow> int \<Rightarrow> string \<Rightarrow> obj" where
  "personal_freshData coins marketHistory updated now today =
     [(''coins'', coins),
      (''market'', marketHistory),
      (''updated'', JStr updated),
      (''updatedTimestamp'', JNum (of_int now)),
      (''dataDate'', JStr today)]"

definition personal_refresh :: "personal_env \<Rightarrow> personal_cache \<Rightarrow> personal_cache result" where
  "personal_refresh env cache =
     (let now = pe_now env; today = pe_today env in
      case promise_all2 (pe_coins env) (pe_marketHistory env) of
        Inr (coins, marketHistory) \<Rightarrow>
          (let freshData = personal_freshData coins marketHistory (pe_updated env) now today
           in \<lparr>res = \<lparr>status = 200, headers = personal_headers,
                       body = Some (JObj (spread freshData [(''cached'', JBool False)]))\<rparr>,
               next_cache = \<lparr>pc_data = Some freshData, pc_timestamp = now, pc_date = Some today\<rparr>,
               requests = [personal_coins_url, global_url]\<rparr>)
      | Inl error \<Rightarrow>
          (case pc_data cache of
             Some data \<Rightarrow>
               \<lparr>res = \<lparr>status = 200, headers = personal_headers,
                        body = Some (JObj (spread data
                          [(''cached'', JBool True),
                           (''stale'', JBool True),
                           (''cacheAge'', JNum (of_int (cacheAge now (pc_timestamp cache)))),
                           (''error'', JStr stale_error)]))\<rparr>,
                next_cache = cache, requests = [personal_coins_url, global_url]\<rparr>
           | None \<Rightarrow>
               \<lparr>res = \<lparr>status = 500, headers = personal_headers,
                        body = Some (JObj [(''error'', JStr ''Failed to fetch personal data''),
                                           (''coins'', JArr []),
                                           (''market'', JObj [])])\<rparr>,
                next_cache = cache, requests = [personal_coins_url, global_url]\<rparr>))"

definition handler_personal_cache :: "personal_env \<Rightarrow> personal_cache \<Rightarrow> personal_cache result" where
  "handler_personal_cache env cache =
     (let now = pe_now env; today = pe_today env in
      case pc_data cache of
        Some data \<Rightarrow>
          (if pc_date cache = Some today then
             \<lparr>res = \<lparr>status = 200, headers = personal_headers,
                      body = Some (cached_body data now (pc_timestamp cache))\<rparr>,
              next_cache = cache, requests = []\<rparr>
           else personal_refresh env cache)
      | None \<Rightarrow> personal_refresh env cache)"

section \<open>Market mood\<close>

text \<open>Numbers that may be \<open>NaN\<close> (\<open>None\<close>): sum, distance test, rounding to one decimal.\<close>

definition num_add :: "real option \<Rightarrow> real option \<Rightarrow> real option" where
  "num_add a b = (case (a, b) of (Some x, Some y) \<Rightarrow> Some (x + y) | _ \<Rightarrow> None)"

text \<open>\<open>Math.abs(a - b) > t\<close>: false when either number is \<open>NaN\<close>.\<close>

definition diff_exceeds :: "real option \<Rightarrow> real option \<Rightarrow> real \<Rightarrow> bool" where
  "diff_exceeds a b t = (case (a, b) of (Some x, Some y) \<Rightarrow> \<bar>x - y\<bar> > t | _ \<Rightarrow> False)"

text \<open>\<open>Math.round(x * 10) / 10\<close>; \<open>Math.round\<close> is \<open>floor(y + 1/2)\<close>.\<close>

definition round1 :: "real option \<Rightarrow> real option" where
  "round1 x = map_option (\<lambda>r. real_of_int \<lfloor>r * 10 + 1 / 2\<rfloor> / 10) x"

record mood_coin =
  price_change_percentage_24h :: "real option"

record mood_point =
  mp_breadth :: "real option"
  mp_mv :: "real option"

text \<open>
  The file \<open>data/mood-history.json\<close>: \<open>None\<close> when it is missing or unreadable, and
  each of its two lists may be absent. Its points hold numbers; \<open>None\<close> in a point is
  the \<open>NaN\<close> of a computed breadth, not a \<open>null\<close> of the file.
\<close>

record mood_history =
  mh_hourly :: "mood_point list option"
  mh_daily :: "mood_point list option"

record mood_env =
  mo_method :: string
  mo_global :: "global_body upstream"
  mo_coins :: "mood_coin list upstream"
  mo_history :: "mood_history option"
  mo_lastUpdated :: string

definition mood_headers :: "(string \<times> string) list" where
  "mood_headers =
     [(''Access-Control-Allow-Origin'', ''*''),
      (''Access-Control-Allow-Methods'', ''GET, OPTIONS''),
      (''Cache-Control'', ''public, s-maxage=300, stale-while-revalidate=60'')]"

text \<open>\<open>totalVolume24h > 0 ? totalMarketCap / totalVolume24h : 20\<close>.\<close>

definition mvRatio24h :: "real \<Rightarrow> real \<Rightarrow> real" where
  "mvRatio24h totalMarketCap totalVolume24h =
     (if totalVolume24h > 0 then totalMarketCap / totalVolume24h else 20)"

text \<open>\<open>(greenCoins / coins.length) * 100\<close>: \<open>0 / 0\<close> is \<open>NaN\<close> for an empty list.\<close>

definition mood_breadth :: "nat \<Rightarrow> nat \<Rightarrow> real option" where
  "mood_breadth greenCoins n =
     (if n = 0 then None else Some (real greenCoins / real n * 100))"

definition point_json :: "mood_point \<Rightarrow> json" where
  "point_json p = JObj [(''breadth'', num_json (mp_breadth p)), (''mv'', num_json (mp_mv p))]"

text \<open>The mean of a non-empty list: the sum from 0, divided by the length.\<close>

definition mean_of :: "real option list \<Rightarrow> real option" where
  "mean_of xs = map_option (\<lambda>s. s / real (length xs)) (foldl num_add (Some 0) xs)"

definition mood_fallback :: "string \<Rightarrow> obj" where
  "mood_fallback msg =
     [(''success'', JBool False),
      (''error'', JStr msg),
      (''breadth'', JNum 55),
      (''breadthAvg24h'', JNum 52),
      (''mvRatio24h'', JNum 22),
      (''mvRatio7d'', JNum 25),
      (''trail'', JArr [JObj [(''breadth'', JNum 55), (''mv'', JNum 22)]]),
      (''trail7d'', JArr []),
      (''mvRange'', JObj [(''low'', JNum 10), (''high'', JNum 45)])]"

definition mood_success :: "mood_env \<Rightarrow> global_body \<Rightarrow> mood_coin list \<Rightarrow> obj" where
  "mood_success env globalData coins =
     (let greenCoins = length (filter (\<lambda>c. case price_change_percentage_24h c of
                                            None \<Rightarrow> False | Some x \<Rightarrow> x > 0) coins);
          breadth = mood_breadth greenCoins (length coins);
          totalMarketCap = or_zero (Option.bind (gb_data globalData) total_market_cap_usd);
          totalVolume24h = or_zero (Option.bind (gb_data globalData) total_volume_usd);
          mv = mvRatio24h totalMarketCap totalVolume24h;
          current = \<lparr>mp_breadth = breadth, mp_mv = Some mv\<rparr>;
          hourly = (case mo_history env of None \<Rightarrow> [] | Some h \<Rightarrow>
                      (case mh_hourly h of None \<Rightarrow> [] | Some ps \<Rightarrow> ps));
          daily = (case mo_history env of None \<Rightarrow> [] | Some h \<Rightarrow>
                      (case mh_daily h of None \<Rightarrow> [] | Some ps \<Rightarrow> ps));
          trail0 = (if length hourly > 0 then hourly else [current]);
          lastPoint = last trail0;
          trail24h = (if diff_exceeds (mp_breadth lastPoint) breadth (1 / 2) \<or>
                         diff_exceeds (mp_mv lastPoint) (Some mv) (1 / 2)
                      then trail0 @ [current] else trail0);
          trail7d = daily;
          mvRatio7d = (if length trail7d > 0 then mean_of (map mp_mv trail7d) else Some mv);
          breadthAvg24h = mean_of (map mp_breadth trail24h)
      in [(''success'', JBool True),
          (''lastUpdated'', JStr (mo_lastUpdated env)),
          (''breadth'', num_json (round1 breadth)),
          (''breadthAvg24h'', num_json (round1 breadthAvg24h)),
          (''mvRatio24h'', num_json (round1 (Some mv))),
          (''mvRatio7d'', num_json (round1 mvRatio7d)),
          (''trail'', JArr (map point_json trail24h)),
          (''trail7d'', JArr (map point_json trail7d)),
          (''mvRange'', JObj [(''low'', JNum 10), (''high'', JNum 45)]),
          (''dataPoints'', JObj [(''hourly'', JNum (real (length trail24h))),
                                 (''daily'', JNum (real (length trail7d)))]),
          (''raw'', JObj [(''totalMarketCap'', JNum totalMarketCap),
                          (''totalVolume24h'', JNum totalVolume24h),
                          (''greenCoins'', JNum (real greenCoins)),
                          (''totalCoins'', JNum (real (length coins)))])])"

text \<open>The \<open>try\<close> block: the two requests in turn, each throwing on a failure.\<close>

definition mood_try :: "mood_env \<Rightarrow> string + obj" where
  "mood_try env =
     (case mo_global env of
        Rejected msg \<Rightarrow> Inl msg
      | NotOk st \<Rightarrow> Inl ''Failed to fetch global data''
      | Body globalData \<Rightarrow>
          (case mo_coins env of
             Rejected msg \<Rightarrow> Inl msg
           | NotOk st \<Rightarrow> Inl ''Failed to fetch coins data''
           | Body coins \<Rightarrow> Inr (mood_success env globalData coins)))"

definition handler_market_mood :: "mood_env \<Rightarrow> response" where
  "handler_market_mood env =
     (if mo_method env = ''OPTIONS'' then
        \<lparr>status = 200, headers = mood_headers, body = None\<rparr>
      else
        (case mood_try env of
           Inr obj \<Rightarrow> \<lparr>status = 200, headers = mood_headers, body = Some (JObj obj)\<rparr>
         | Inl msg \<Rightarrow> \<lparr>status = 200, headers = mood_headers,
                        body = Some (JObj (mood_fallback msg))\<rparr>))"

section \<open>The podcast feed\<close>

subsection \<open>String operations\<close>

definition starts_with :: "string \<Rightarrow> string \<Rightarrow> bool" where
  "starts_with p s = (take (length p) s = p)"

text \<open>
  Letter case, for the \<open>i\<close> flag of the regular expressions and for \<open>toLowerCase\<close>:
  the ASCII letters; no other character matches an ASCII letter of a pattern.
\<close>

definition to_upper :: "char \<Rightarrow> char" where
  "to_upper c =
     (case map_of (zip ''abcdefghijklmnopqrstuvwxyz'' ''ABCDEFGHIJKLMNOPQRSTUVWXYZ'') c of
        Some u \<Rightarrow> u | None \<Rightarrow> c)"

definition to_lower :: "char \<Rightarrow> char" where
  "to_lower c =
     (case map_of (zip ''ABCDEFGHIJKLMNOPQRSTUVWXYZ'' ''abcdefghijklmnopqrstuvwxyz'') c of
        Some l \<Rightarrow> l | None \<Rightarrow> c)"

text \<open>The literal \<open>p\<close> matches at the start of \<open>s\<close>, ignoring case.\<close>

definition starts_with_ci :: "string \<Rightarrow> string \<Rightarrow> bool" where
  "starts_with_ci p s = (map to_upper (take (length p) s) = map to_upper p)"

text \<open>
  \<open>s.split(sep)\<close> for a non-empty separator: the pieces between the occurrences of
  \<open>sep\<close>, found from the left; \<open>acc\<close> holds the current piece in reverse.
\<close>

function split_acc :: "string \<Rightarrow> string \<Rightarrow> string \<Rightarrow> string list" where
  "split_acc sep acc [] = [rev acc]"
| "split_acc sep acc (c # cs) =
     (if sep \<noteq> [] \<and> starts_with sep (c # cs)
      then rev acc # split_acc sep [] (drop (length sep) (c # cs))
      else split_acc sep (c # acc) cs)"
  by pat_completeness auto
termination
  by (relation "measure (\<lambda>(sep, acc, s). length s)") auto

definition str_split :: "string \<Rightarrow> string \<Rightarrow> string list" where
  "str_split sep s = split_acc sep [] s"

text \<open>\<open>s.indexOf(p)\<close>, \<open>None\<close> for \<open>-1\<close>.\<close>

fun indexOf :: "string \<Rightarrow> string \<Rightarrow> nat option" where
  "indexOf p [] = (if p = [] then Some 0 else None)"
| "indexOf p (c # cs) =
     (if starts_with p (c # cs) then Some 0 else map_option Suc (indexOf p cs))"

definition trim :: "string \<Rightarrow> string" where
  "trim s = rev (dropWhile is_space (rev (dropWhile is_space s)))"

text \<open>\<open>s.replace(/p/g, r)\<close> for a literal, non-empty \<open>p\<close>.\<close>

function replace_all :: "string \<Rightarrow> string \<Rightarrow> string \<Rightarrow> string" where
  "replace_all p r [] = []"
| "replace_all p r (c # cs) =
     (if p \<noteq> [] \<and> starts_with p (c # cs)
      then r @ replace_all p r (drop (length p) (c # cs))
      else c # replace_all p r cs)"
  by pat_completeness auto
termination
  by (relation "measure (\<lambda>(p, r, s). length s)") auto

text \<open>A string or \<open>null\<close>, and \<open>x || d\<close> on it: the empty string is falsy too.\<close>

definition or_else :: "string option \<Rightarrow> string \<Rightarrow> string" where
  "or_else x d = (case x of None \<Rightarrow> d | Some s \<Rightarrow> (if s \<noteq> [] then s else d))"

definition str_json :: "string option \<Rightarrow> json" where
  "str_json x = (case x of None \<Rightarrow> JNull | Some s \<Rightarrow> JStr s)"

text \<open>The truth value of a string that may be \<open>null\<close>.\<close>

definition truthy :: "string option \<Rightarrow> bool" where
  "truthy x = (case x of None \<Rightarrow> False | Some s \<Rightarrow> s \<noteq> [])"

subsection \<open>Matching the regular expressions\<close>

text \<open>
  \<open>String.prototype.match\<close> with a regular expression without the \<open>g\<close> flag finds
  the match at the leftmost position where there is one. \<open>first_match m s\<close> tries the
  matcher \<open>m\<close> at every position of \<open>s\<close> from the left.
\<close>

fun first_match :: "(string \<Rightarrow> 'a option) \<Rightarrow> string \<Rightarrow> 'a option" where
  "first_match m [] = m []"
| "first_match m (c # cs) =
     (case m (c # cs) of Some v \<Rightarrow> Some v | None \<Rightarrow> first_match m cs)"

text \<open>
  The opening of a tag, \<open><tagName[^>]*>\<close>: the name, then every character up to the
  next \<open>>\<close>, which must be there. The result is the text after it.
\<close>

definition open_tag :: "string \<Rightarrow> string \<Rightarrow> string option" where
  "open_tag tagName s =
     (if starts_with_ci (''<'' @ tagName) s
      then (case dropWhile (\<lambda>c. c \<noteq> CHR ''>'') (drop (Suc (length tagName)) s) of
              [] \<Rightarrow> None
            | _ # rest \<Rightarrow> Some rest)
      else None)"

text \<open>
  The first expression of \<open>extractTag\<close>,
  \<^verbatim>\<open><tagName[^>]*><!\[CDATA\[([^\]]*?)\]\]></tagName>\<close>, at the start of \<open>s\<close>. The group
  holds no \<open>]\<close> and a \<open>]\<close> follows it, so it is the text up to the first \<open>]\<close>.
\<close>

definition cdata_at :: "string \<Rightarrow> string \<Rightarrow> string option" where
  "cdata_at tagName s =
     (case open_tag tagName s of
        None \<Rightarrow> None
      | Some rest \<Rightarrow>
          (if starts_with_ci ''<![CDATA['' rest
           then (let inner = drop 9 rest;
                     group = takeWhile (\<lambda>c. c \<noteq> CHR '']'') inner;
                     after = dropWhile (\<lambda>c. c \<noteq> CHR '']'') inner
                 in if starts_with_ci ('']]></'' @ tagName @ ''>'') after
                    then Some group else None)
           else None))"

text \<open>
  The second expression, \<^verbatim>\<open><tagName[^>]*>([^<]*)</tagName>\<close>: the group is the text up
  to the next \<open><\<close>, where the closing tag must start.
\<close>

definition plain_at :: "string \<Rightarrow> string \<Rightarrow> string option" where
  "plain_at tagName s =
     (case open_tag tagName s of
        None \<Rightarrow> None
      | Some rest \<Rightarrow>
          (let group = takeWhile (\<lambda>c. c \<noteq> CHR ''<'') rest;
               after = dropWhile (\<lambda>c. c \<noteq> CHR ''<'') rest
           in if starts_with_ci (''</'' @ tagName @ ''>'') after
              then Some group else None))"

text \<open>The text before the first \<open><item>\<close>: \<open>xml.split('<item>')[0]\<close>.\<close>

definition channel_part :: "string \<Rightarrow> string" where
  "channel_part xml = (case str_split ''<item>'' xml of [] \<Rightarrow> [] | first # _ \<Rightarrow> first)"

definition extractTag :: "string \<Rightarrow> string \<Rightarrow> bool \<Rightarrow> string option" where
  "extractTag xml tagName fromChannel =
     (let searchContent = (if fromChannel then channel_part xml else xml)
      in case first_match (cdata_at tagName) searchContent of
           Some g \<Rightarrow> Some (trim g)
         | None \<Rightarrow> map_option trim (first_match (plain_at tagName) searchContent))"

text \<open>
  The tail \<^verbatim>\<open>attrName=["']([^"']*)["']\<close> of the expression of \<open>extractAttribute\<close>, at
  the start of \<open>s\<close>: the group runs to the next quote of either kind.
\<close>

definition is_quote :: "char \<Rightarrow> bool" where
  "is_quote c = (c = CHR 0x22 \<or> c = CHR 0x27)"

definition attr_at :: "string \<Rightarrow> string \<Rightarrow> string option" where
  "attr_at attrName s =
     (if starts_with_ci (attrName @ ''='') s
      then (case drop (Suc (length attrName)) s of
              [] \<Rightarrow> None
            | q # rest \<Rightarrow>
                (if is_quote q
                 then (case dropWhile (\<lambda>c. \<not> is_quote c) rest of
                         [] \<Rightarrow> None
                       | _ # _ \<Rightarrow> Some (takeWhile (\<lambda>c. \<not> is_quote c) rest))
                 else None))
      else None)"

text \<open>
  The greedy \<open>[^>]*\<close> before the attribute: of the characters up to the next \<open>>\<close> it
  takes as many as it can, so the positions are tried from the last one back.
\<close>

fun last_match :: "(string \<Rightarrow> 'a option) \<Rightarrow> nat \<Rightarrow> string \<Rightarrow> 'a option" where
  "last_match m 0 s = m s"
| "last_match m (Suc k) s =
     (case m (drop (Suc k) s) of Some v \<Rightarrow> Some v | None \<Rightarrow> last_match m k s)"

text \<open>\<^verbatim>\<open><tagName[^>]*attrName=["']([^"']*)["']\<close> at the start of \<open>s\<close>.\<close>

definition attribute_at :: "string \<Rightarrow> string \<Rightarrow> string \<Rightarrow> string option" where
  "attribute_at tagName attrName s =
     (if starts_with_ci (''<'' @ tagName) s
      then (let rest = drop (Suc (length tagName)) s
            in last_match (attr_at attrName)
                 (length (takeWhile (\<lambda>c. c \<noteq> CHR ''>'') rest)) rest)
      else None)"

text \<open>\<open>extractAttribute\<close> has three parameters: a fourth argument is ignored.\<close>

definition extractAttribute :: "string \<Rightarrow> string \<Rightarrow> string \<Rightarrow> string option" where
  "extractAttribute xml tagName attrName = first_match (attribute_at tagName attrName) xml"

subsection \<open>Show metadata\<close>

definition default_show_image :: string where
  "default_show_image = ''https://megaphone.imgix.net/podcasts/bcb63e62-d56f-11eb-9e47-43b3c17dbba3/image/The_Breakdown_Show_Art.jpg''"

text \<open>
  \<open>a || b || c\<close> on strings that may be \<open>null\<close>.
\<close>

definition parseShowMetadata :: "string \<Rightarrow> obj" where
  "parseShowMetadata xml =
     [(''title'', JStr (or_else (extractTag xml ''title'' True) ''The Breakdown'')),
      (''description'', JStr (or_else (extractTag xml ''description'' True) [])),
      (''image'', JStr (or_else (extractAttribute xml ''itunes:image'' ''href'')
                         (or_else (extractTag xml ''url'' True) default_show_image))),
      (''author'', JStr (or_else (extractTag xml ''itunes:author'' True) ''NLW'')),
      (''links'', JObj
         [(''apple'', JStr ''https://podcasts.apple.com/us/podcast/the-breakdown/id1438693620''),
          (''spotify'', JStr ''https://open.spotify.com/show/538vuul1PuorUDwgkVYO6u''),
          (''website'', JStr ''https://blockworks.co/podcast/thebreakdown'')])]"

subsection \<open>Episodes\<close>

text \<open>
  Conversions of the platform that the model takes as parameters: \<open>Number(s)\<close>
  (\<open>None\<close> is \<open>NaN\<close>), \<open>String(x)\<close> of a number that is not an integer, the time value
  of \<open>new Date(s)\<close> (\<open>None\<close> for an invalid date) and the text of \<open>toISOString()\<close>.
\<close>

record platform =
  toNumber :: "string \<Rightarrow> real option"
  numberText :: "real \<Rightarrow> string"
  dateParse :: "string \<Rightarrow> int option"
  dateISO :: "int \<Rightarrow> string"

definition cleanTitle :: "string \<Rightarrow> string" where
  "cleanTitle title =
     trim (replace_all ''&apos;'' [CHR 0x27]
          (replace_all ''&#39;'' [CHR 0x27]
          (replace_all ''&quot;'' [CHR 0x22]
          (replace_all ''&gt;'' ''>''
          (replace_all ''&lt;'' ''<''
          (replace_all ''&amp;'' ''&'' title))))))"

text \<open>\<open>replace(/<[^>]*>/g, '')\<close>: from a \<open><\<close> to the next \<open>>\<close>, when there is one.\<close>

function strip_tags :: "string \<Rightarrow> string" where
  "strip_tags [] = []"
| "strip_tags (c # cs) =
     (if c = CHR ''<''
      then (case dropWhile (\<lambda>d. d \<noteq> CHR ''>'') cs of
              [] \<Rightarrow> c # strip_tags cs
            | _ # rest \<Rightarrow> strip_tags rest)
      else c # strip_tags cs)"
  by pat_completeness auto
termination
proof (relation "measure length")
  fix c :: char and cs x21 x22
  assume "dropWhile (\<lambda>d. d \<noteq> CHR ''>'') cs = x21 # x22"
  then have "length (x21 # x22) \<le> length cs"
    by (metis length_dropWhile_le)
  then show "(x22, c # cs) \<in> measure length"
    by simp
qed simp_all

text \<open>\<open>replace(/\s+/g, ' ')\<close>: every run of white space becomes one space.\<close>

function collapse_spaces :: "string \<Rightarrow> string" where
  "collapse_spaces [] = []"
| "collapse_spaces (c # cs) =
     (if is_space c then CHR '' '' # collapse_spaces (dropWhile is_space cs)
      else c # collapse_spaces cs)"
  by pat_completeness auto
termination
proof (relation "measure length")
  fix c :: char and cs
  have "length (dropWhile is_space cs) \<le> length cs"
    by (rule length_dropWhile_le)
  then show "(dropWhile is_space cs, c # cs) \<in> measure length"
    by simp
qed simp_all

definition cleanDescription :: "string \<Rightarrow> string" where
  "cleanDescription desc =
     trim (collapse_spaces
          (replace_all ''&nbsp;'' '' ''
          (replace_all ''&#39;'' [CHR 0x27]
          (replace_all ''&quot;'' [CHR 0x22]
          (replace_all ''&gt;'' ''>''
          (replace_all ''&lt;'' ''<''
          (replace_all ''&amp;'' ''&''
          (strip_tags desc))))))))"

definition is_digit :: "char \<Rightarrow> bool" where
  "is_digit c = (c \<in> set ''0123456789'')"

text \<open>\<open>%\<close> on numbers: the remainder has the sign of the dividend.\<close>

definition js_rem :: "real \<Rightarrow> real \<Rightarrow> real" where
  "js_rem x y = x - y * (if x / y < 0 then real_of_int \<lceil>x / y\<rceil> else real_of_int \<lfloor>x / y\<rfloor>)"

definition parseDurationToSeconds :: "platform \<Rightarrow> string option \<Rightarrow> real option" where
  "parseDurationToSeconds pf duration =
     (case duration of
        None \<Rightarrow> Some 0
      | Some d \<Rightarrow>
          (if d = [] then Some 0
           else if list_all is_digit d then map_option real_of_int (parseInt d)
           else (case map (toNumber pf) (str_split '':'' d) of
                   [h, m, s] \<Rightarrow>
                     num_add (num_add (map_option (\<lambda>x. x * 3600) h) (map_option (\<lambda>x. x * 60) m)) s
                 | [m, s] \<Rightarrow> num_add (map_option (\<lambda>x. x * 60) m) s
                 | _ \<Rightarrow> Some 0)))"

text \<open>\<open>String(x)\<close>: decimal digits for an integer below \<open>10^21\<close>, else the platform's text.\<close>

definition number_string :: "platform \<Rightarrow> real \<Rightarrow> string" where
  "number_string pf x =
     (if x = real_of_int \<lfloor>x\<rfloor> \<and> \<bar>x\<bar> < 10 ^ 21 then show_int \<lfloor>x\<rfloor> else numberText pf x)"

definition padStart2 :: "string \<Rightarrow> string" where
  "padStart2 s = replicate (2 - length s) CHR ''0'' @ s"

definition formatDuration :: "platform \<Rightarrow> real option \<Rightarrow> string" where
  "formatDuration pf seconds =
     (case seconds of
        None \<Rightarrow> []
      | Some x \<Rightarrow>
          (if x = 0 then []
           else (let mins = real_of_int \<lfloor>x / 60\<rfloor>;
                     secs = js_rem x 60
                 in number_string pf mins @ '':'' @ padStart2 (number_string pf secs))))"

text \<open>\<open>replace(/[^a-z0-9]+/g, '-')\<close> after \<open>toLowerCase()\<close>, then the first 50.\<close>

definition is_id_char :: "char \<Rightarrow> bool" where
  "is_id_char c = (c \<in> set ''abcdefghijklmnopqrstuvwxyz0123456789'')"

function dash_runs :: "string \<Rightarrow> string" where
  "dash_runs [] = []"
| "dash_runs (c # cs) =
     (if is_id_char c then c # dash_runs cs
      else CHR ''-'' # dash_runs (dropWhile (\<lambda>d. \<not> is_id_char d) cs))"
  by pat_completeness auto
termination
proof (relation "measure length")
  fix c :: char and cs
  have "length (dropWhile (\<lambda>d. \<not> is_id_char d) cs) \<le> length cs"
    by (rule length_dropWhile_le)
  then show "(dropWhile (\<lambda>d. \<not> is_id_char d) cs, c # cs) \<in> measure length"
    by simp
qed simp_all

definition generateId :: "string \<Rightarrow> string" where
  "generateId title = take 50 (dash_runs (map to_lower title))"

text \<open>
  One \<open><item>\<close> of the feed: \<open>Inr None\<close> when it has no audio URL and is skipped,
  \<open>Inl\<close> when \<open>toISOString\<close> throws on an invalid date.
\<close>

definition parse_item :: "platform \<Rightarrow> string \<Rightarrow> string + obj option" where
  "parse_item pf item =
     (let itemContent = (case indexOf ''</item>'' item of
                           Some endIndex \<Rightarrow> take endIndex item
                         | None \<Rightarrow> item);
          title = or_else (extractTag itemContent ''title'' False) ''Untitled Episode'';
          pubDate = extractTag itemContent ''pubDate'' False;
          description = cleanDescription
            (or_else (extractTag itemContent ''description'' False)
               (or_else (extractTag itemContent ''itunes:summary'' False) []));
          duration = extractTag itemContent ''itunes:duration'' False;
          audioUrl = extractAttribute itemContent ''enclosure'' ''url'';
          imageUrl = extractAttribute itemContent ''itunes:image'' ''href'';
          guid = extractTag itemContent ''guid'' False
      in if truthy audioUrl then
           (case (if truthy pubDate
                  then (case dateParse pf (or_else pubDate []) of
                          None \<Rightarrow> Inl ''Invalid time value''
                        | Some t \<Rightarrow> Inr (JStr (dateISO pf t)))
                  else Inr JNull) of
              Inl msg \<Rightarrow> Inl msg
            | Inr pubDateISO \<Rightarrow>
                Inr (Some
                  [(''id'', JStr (or_else guid (generateId title))),
                   (''title'', JStr (cleanTitle title)),
                   (''pubDate'', (if truthy pubDate then str_json pubDate else JNull)),
                   (''pubDateISO'', pubDateISO),
                   (''durationRaw'', str_json duration),
                   (''durationSec'', num_json (parseDurationToSeconds pf duration)),
                   (''durationFormatted'',
                      JStr (formatDuration pf (parseDurationToSeconds pf duration))),
                   (''audioUrl'', str_json audioUrl),
                   (''imageUrl'', (if truthy imageUrl then str_json imageUrl else JNull)),
                   (''summary'', JStr (take 300 description))]))
         else Inr None)"

text \<open>The loop over the items: it stops at the first item that throws.\<close>

fun parse_items :: "platform \<Rightarrow> string list \<Rightarrow> string + obj list" where
  "parse_items pf [] = Inr []"
| "parse_items pf (item # items) =
     (case parse_item pf item of
        Inl msg \<Rightarrow> Inl msg
      | Inr ep \<Rightarrow>
          (case parse_items pf items of
             Inl msg \<Rightarrow> Inl msg
           | Inr eps \<Rightarrow> Inr ((case ep of None \<Rightarrow> [] | Some e \<Rightarrow> [e]) @ eps)))"

definition parseRSS :: "platform \<Rightarrow> string \<Rightarrow> string + obj list" where
  "parseRSS pf xml = parse_items pf (drop 1 (str_split ''<item>'' xml))"

subsection \<open>The handler of the podcast feed\<close>

record breakdown_env =
  bd_feed :: "string upstream"
  bd_platform :: platform
  bd_lastUpdated :: string
  bd_error_lastUpdated :: string

definition breakdown_headers :: "(string \<times> string) list" where
  "breakdown_headers =
     [(''Access-Control-Allow-Origin'', ''*''),
      (''Access-Control-Allow-Methods'', ''GET''),
      (''Cache-Control'', ''public, s-maxage=600, stale-while-revalidate=60'')]"

text \<open>The \<open>try\<close> block: fetch, parse the episodes, read the show, build the object.\<close>

definition breakdown_try :: "breakdown_env \<Rightarrow> string + obj" where
  "breakdown_try env =
     (case bd_feed env of
        Rejected msg \<Rightarrow> Inl msg
      | NotOk st \<Rightarrow> Inl (''RSS fetch failed: '' @ show_nat st)
      | Body xmlText \<Rightarrow>
          (case parseRSS (bd_platform env) xmlText of
             Inl msg \<Rightarrow> Inl msg
           | Inr episodes \<Rightarrow>
               (let showData = parseShowMetadata xmlText
                in Inr [(''success'', JBool True),
                        (''lastUpdated'', JStr (bd_lastUpdated env)),
                        (''show'', JObj showData),
                        (''episodes'', JArr (map JObj (take 5 episodes))),
                        (''latest'', JNum 0)])))"

definition handler_breakdown :: "breakdown_env \<Rightarrow> response" where
  "handler_breakdown env =
     (case breakdown_try env of
        Inr obj \<Rightarrow> \<lparr>status = 200, headers = breakdown_headers, body = Some (JObj obj)\<rparr>
      | Inl msg \<Rightarrow>
          \<lparr>status = 500, headers = breakdown_headers,
            body = Some (JObj [(''success'', JBool False),
                               (''error'', JStr ''Failed to fetch podcast feed''),
                               (''message'', JStr msg),
                               (''lastUpdated'', JStr (bd_error_lastUpdated env))])\<rparr>)"

section \<open>ETF flows\<close>

record etf_day =
  netInflow :: "real option"
  net_inflow :: "real option"
  amount :: "real option"

record etf_body =
  dailyNetInflow :: "real option"
  daily_net_inflow :: "real option"
  historicalFlows :: "etf_day list option"
  flows_history :: "etf_day list option"

record etf_env =
  ee_apiKey :: "string option"
  ee_flows :: "etf_body upstream"
  ee_updated :: string

definition etf_headers :: "(string \<times> string) list" where
  "etf_headers =
     [(''Access-Control-Allow-Origin'', ''*''),
      (''Access-Control-Allow-Methods'', ''GET''),
      (''Cache-Control'', ''s-maxage=300, stale-while-revalidate=600'')]"

definition week_entry :: "string \<Rightarrow> real \<Rightarrow> json" where
  "week_entry day amt = JObj [(''day'', JStr day), (''amount'', JNum amt)]"

definition mock_week :: "(string \<times> real) list" where
  "mock_week = [(''Mon'', 215), (''Tue'', 380), (''Wed'', - 120), (''Thu'', 290), (''Fri'', 438)]"

definition getMockData :: "string \<Rightarrow> obj" where
  "getMockData updated =
     [(''yesterday'', JObj [(''amount'', JNum 438), (''date'', JStr ''Yesterday'')]),
      (''week'', JArr (map (\<lambda>(d, a). week_entry d a) mock_week)),
      (''insight'', JStr ''Third consecutive day of net inflows''),
      (''source'', JStr ''mock''),
      (''updated'', JStr updated)]"

text \<open>\<open>a || b\<close> on numbers that may be missing: the first that is there and not 0.\<close>

definition num_or :: "real option \<Rightarrow> real option \<Rightarrow> real option" where
  "num_or a b = (case a of None \<Rightarrow> b | Some x \<Rightarrow> (if x \<noteq> 0 then Some x else b))"

text \<open>The loop of \<open>countConsecutive\<close>, from the last day back.\<close>

fun count_from_end :: "bool \<Rightarrow> real list \<Rightarrow> nat" where
  "count_from_end isInflow [] = 0"
| "count_from_end isInflow (a # earlier) =
     (if (a > 0) = isInflow then Suc (count_from_end isInflow earlier) else 0)"

definition countConsecutive :: "real list \<Rightarrow> bool \<Rightarrow> nat" where
  "countConsecutive week isInflow = count_from_end isInflow (rev week)"

text \<open>\<open>Math.round(x)\<close>.\<close>

definition js_round :: "real \<Rightarrow> int" where
  "js_round x = \<lfloor>x + 1 / 2\<rfloor>"

definition generateInsight :: "real \<Rightarrow> real list \<Rightarrow> string" where
  "generateInsight yesterday week =
     (let isInflow = (yesterday > 0);
          consecutiveDays = countConsecutive week isInflow;
          weekTotal = foldl (\<lambda>sum d. sum + d) 0 week
      in if consecutiveDays \<ge> 3 then
           show_nat consecutiveDays @ '' consecutive days of net '' @
             (if isInflow then ''inflows'' else ''outflows'')
         else if \<bar>yesterday\<bar> > 400 then
           ''Significant '' @ (if isInflow then ''institutional buying'' else ''redemptions'') @
             '' yesterday''
         else if weekTotal > 500 then
           ''Strong weekly accumulation: +$'' @ show_int (js_round weekTotal) @ ''M net''
         else if weekTotal < - 500 then
           ''Weekly outflows signal caution: -$'' @ show_int \<bar>js_round weekTotal\<bar> @ ''M''
         else if isInflow then ''Steady institutional interest continues''
         else ''Mixed signals from institutional flows'')"

text \<open>\<open>weekData.slice(-5)\<close>: the last five.\<close>

definition last5 :: "'a list \<Rightarrow> 'a list" where
  "last5 xs = drop (length xs - 5) xs"

definition transformSoSoValueData :: "string \<Rightarrow> etf_body \<Rightarrow> obj" where
  "transformSoSoValueData updated data =
     (let yesterday = or_zero (num_or (dailyNetInflow data) (daily_net_inflow data));
          weekData = (case historicalFlows data of
                        Some ds \<Rightarrow> ds
                      | None \<Rightarrow> (case flows_history data of Some ds \<Rightarrow> ds | None \<Rightarrow> []));
          amounts = map (\<lambda>day. or_zero (num_or (netInflow day) (num_or (net_inflow day) (amount day))))
                      (last5 weekData);
          week = map (\<lambda>(d, a). week_entry d a) (zip [''Mon'', ''Tue'', ''Wed'', ''Thu'', ''Fri''] amounts);
          insight = generateInsight yesterday amounts
      in [(''yesterday'', JObj [(''amount'', JNum (real_of_int (js_round (yesterday / 1000000)))),
                                (''date'', JStr ''Yesterday'')]),
          (''week'', JArr (if length week \<noteq> 0 then week
                           else map (\<lambda>(d, a). week_entry d a) mock_week)),
          (''insight'', JStr insight),
          (''source'', JStr ''sosovalue''),
          (''updated'', JStr updated)])"

definition handler_etf_flows :: "etf_env \<Rightarrow> response" where
  "handler_etf_flows env =
     (if \<not> truthy (ee_apiKey env) then
        \<lparr>status = 200, headers = etf_headers, body = Some (JObj (getMockData (ee_updated env)))\<rparr>
      else
        (case ee_flows env of
           Rejected msg \<Rightarrow>
             \<lparr>status = 200, headers = etf_headers, body = Some (JObj (getMockData (ee_updated env)))\<rparr>
         | NotOk st \<Rightarrow>
             \<lparr>status = 200, headers = etf_headers, body = Some (JObj (getMockData (ee_updated env)))\<rparr>
         | Body data \<Rightarrow>
             \<lparr>status = 200, headers = etf_headers,
               body = Some (JObj (transformSoSoValueData (ee_updated env) data))\<rparr>))"

section \<open>Concrete invocations\<close>

text \<open>A market snapshot that succeeds at time 0, and one with the provider down at time \<open>t\<close>.\<close>

definition ex_market_ok :: market_env where
  "ex_market_ok =
     \<lparr>me_now = 0,
      me_prices = Body \<lparr>bitcoin = Some \<lparr>usd = Some 97000, usd_24h_change = Some (3 / 2),
                                         usd_market_cap = Some 1900000000000\<rparr>,
                        ethereum = Some \<lparr>usd = Some 3600, usd_24h_change = None,
                                          usd_market_cap = Some 430000000000\<rparr>\<rparr>,
      me_global = Body \<lparr>gb_data = Some \<lparr>total_market_cap_usd = Some 3400000000000,
                                         total_volume_usd = Some 140000000000,
                                         market_cap_change_percentage_24h_usd = Some 1,
                                         market_cap_percentage_btc = Some 55,
                                         market_cap_percentage_eth = Some 12,
                                         active_cryptocurrencies = Some 9000\<rparr>\<rparr>,
      me_updated = ''1970-01-01T00:00:00.000Z'',
      me_fallback_updated = ''1970-01-01T00:00:00.000Z'',
      me_fallback_now = 0\<rparr>"

definition ex_market_down :: "int \<Rightarrow> market_env" where
  "ex_market_down t =
     \<lparr>me_now = t,
      me_prices = NotOk 429,
      me_global = Rejected ''fetch failed'',
      me_updated = ''1970-01-01T00:05:01.000Z'',
      me_fallback_updated = ''1970-01-01T00:05:01.000Z'',
      me_fallback_now = t\<rparr>"

definition ex_coins_ok :: coins_env where
  "ex_coins_ok =
     \<lparr>ce_now = 0,
      ce_coins = Inr [JObj [(''id'', JStr ''bitcoin''), (''symbol'', JStr ''BTC'')]],
      ce_updated = ''1970-01-01T00:00:00.000Z''\<rparr>"

definition ex_coins_down :: "int \<Rightarrow> coins_env" where
  "ex_coins_down t =
     \<lparr>ce_now = t,
      ce_coins = Inl ''CoinGecko API failed: 429'',
      ce_updated = ''1970-01-01T00:10:00.000Z''\<rparr>"

definition ex_personal_down :: personal_env where
  "ex_personal_down =
     \<lparr>pe_now = 0,
      pe_today = ''1970-01-01'',
      pe_coins = Inl ''CoinGecko coins API failed: 429'',
      pe_marketHistory = Inr (JObj []),
      pe_updated = ''1970-01-01T00:00:00.000Z''\<rparr>"

text \<open>
  The daily metric on Monday 5 January 1970, \<open>t\<close> milliseconds after midnight, with
  the Fear and Greed provider answering.
\<close>

definition ex_daily_monday :: "int \<Rightarrow> daily_env" where
  "ex_daily_monday t =
     \<lparr>de_now = 345600000 + t,
      de_updated = ''1970-01-05T00:00:00.000Z'',
      de_isoText = (\<lambda>ms. ''1970-01-04T00:00:00.000Z''),
      de_fear_greed = Body [\<lparr>fng_value = ''25'', fng_value_classification = ''Extreme Fear'',
                              fng_timestamp = ''259200''\<rparr>],
      de_global = NotOk 500,
      de_funding = NotOk 500,
      de_open_interest = NotOk 500,
      de_stablecoins = NotOk 500\<rparr>"

definition ex_feed_down :: breakdown_env where
  "ex_feed_down =
     \<lparr>bd_feed = NotOk 503,
      bd_platform = \<lparr>toNumber = (\<lambda>s. None), numberText = (\<lambda>x. []),
                      dateParse = (\<lambda>s. None), dateISO = (\<lambda>t. [])\<rparr>,
      bd_lastUpdated = ''1970-01-01T00:00:00.000Z'',
      bd_error_lastUpdated = ''1970-01-01T00:00:00.000Z''\<rparr>"

text \<open>A property of the object a response carries; \<open>None\<close> when it has none.\<close>

definition body_prop :: "string \<Rightarrow> response \<Rightarrow> json option" where
  "body_prop k r = (case body r of Some (JObj kvs) \<Rightarrow> get_prop k kvs | _ \<Rightarrow> None)"

text \<open>The keys of the object every fetcher of the daily metric returns.\<close>

definition metric_keys :: "string list" where
  "metric_keys =
     [''metric'', ''label'', ''value'', ''numericValue'', ''unit'', ''subtitle'', ''context'',
      ''interpretation'', ''change'', ''history'', ''historyLabel'', ''source'']"

definition ex_personal_ok :: personal_env where
  "ex_personal_ok =
     \<lparr>pe_now = 0,
      pe_today = ''1970-01-01'',
      pe_coins = Inr (JArr [JObj [(''id'', JStr ''bitcoin'')]]),
      pe_marketHistory = Inr (JObj [(''markets'', JNum 900)]),
      pe_updated = ''1970-01-01T00:00:00.000Z''\<rparr>"

section \<open>Fallback objects and schemas\<close>

text \<open>
  The schema of an object: its keys in order, each with the keys of the object
  below it (none for a value that is not an object).
\<close>

definition nested_keys :: "json \<Rightarrow> string list" where
  "nested_keys j = (case j of JObj kvs \<Rightarrow> keys kvs | _ \<Rightarrow> [])"

definition schema :: "obj \<Rightarrow> (string \<times> string list) list" where
  "schema kvs = map (\<lambda>kv. (fst kv, nested_keys (snd kv))) kvs"

text \<open>The fallback object of each fetcher of the daily metric.\<close>

fun fetcher_fallback :: "metric_kind \<Rightarrow> obj" where
  "fetcher_fallback FearGreed = getFallbackFearGreed"
| "fetcher_fallback BtcDominance = fallbackBTCDominance"
| "fetcher_fallback FundingRates = getFallbackFundingRates"
| "fetcher_fallback OpenInterest = getFallbackOpenInterest"
| "fetcher_fallback StablecoinSupply = fallbackStablecoinSupply"

definition upstream_failed :: "'a upstream \<Rightarrow> bool" where
  "upstream_failed up = (case up of Body _ \<Rightarrow> False | _ \<Rightarrow> True)"

text \<open>The provider of the day does not answer with a body.\<close>

definition daily_upstream_failed :: "daily_env \<Rightarrow> bool" where
  "daily_upstream_failed env =
     (case selector (getUTCDay (de_now env)) of
        FearGreed \<Rightarrow> upstream_failed (de_fear_greed env)
      | BtcDominance \<Rightarrow> upstream_failed (de_global env)
      | FundingRates \<Rightarrow> upstream_failed (de_funding env)
      | OpenInterest \<Rightarrow> upstream_failed (de_open_interest env)
      | StablecoinSupply \<Rightarrow> upstream_failed (de_stablecoins env))"

text \<open>Tuesday 6 January 1970, with every provider down.\<close>

definition ex_daily_tuesday_down :: daily_env where
  "ex_daily_tuesday_down =
     \<lparr>de_now = 432000000,
      de_updated = ''1970-01-06T00:00:00.000Z'',
      de_isoText = (\<lambda>ms. []),
      de_fear_greed = NotOk 500,
      de_global = Rejected ''fetch failed'',
      de_funding = NotOk 500,
      de_open_interest = NotOk 500,
      de_stablecoins = NotOk 500\<rparr>"

text \<open>
  A feed whose channel has a title and no image, and whose only item has an image of
  its own; and a feed with one episode with audio and one item without.
\<close>

definition ex_feed_xml :: string where
  "ex_feed_xml =
     ''<channel><title>Show</title><item><itunes:image href='' @ [CHR 0x22] @ ''e.jpg'' @
     [CHR 0x22] @ ''/></item></channel>''"

definition ex_feed_audio :: string where
  "ex_feed_audio =
     ''<item><enclosure url='' @ [CHR 0x22] @ ''e.mp3'' @ [CHR 0x22] @ ''/></item>'' @
     ''<item><guid>2</guid></item>''"

definition ex_platform :: platform where
  "ex_platform =
     \<lparr>toNumber = (\<lambda>s. map_option real_of_int (parseInt s)),
      numberText = (\<lambda>x. []),
      dateParse = (\<lambda>s. None),
      dateISO = (\<lambda>t. [])\<rparr>"

definition ex_feed_ok :: breakdown_env where
  "ex_feed_ok =
     \<lparr>bd_feed = Body ex_feed_audio,
      bd_platform = ex_platform,
      bd_lastUpdated = ''1970-01-01T00:00:00.000Z'',
      bd_error_lastUpdated = ''1970-01-01T00:00:00.000Z''\<rparr>"



section \<open>Properties\<close>

subsection \<open>Evaluating the printers on numerals\<close>

lemma show_nat_numeral [simp]:
  "show_nat (numeral k) =
     (if (numeral k :: nat) < 10 then [digit_char (numeral k)]
      else show_nat (numeral k div 10) @ [digit_char (numeral k mod 10)])"
  by (rule show_nat.simps)

lemma show_nat_0 [simp]: "show_nat 0 = ''0''"
  by (simp add: show_nat.simps digit_char_def)

lemma show_nat_1 [simp]: "show_nat 1 = ''1''"
  by (simp add: show_nat.simps digit_char_def)

lemma show_nat_Suc_0 [simp]: "show_nat (Suc 0) = ''1''"
  by (simp add: show_nat.simps digit_char_def)

subsection \<open>Objects\<close>

lemma get_prop_Nil [simp]: "get_prop k [] = None"
  by (simp add: get_prop_def)

lemma get_prop_Cons [simp]:
  "get_prop k ((k', v) # kvs) = (if k' = k then Some v else get_prop k kvs)"
  by (auto simp: get_prop_def)

lemma spread_Nil [simp]: "spread base [] = base"
  by (simp add: spread_def)

lemma spread_Cons [simp]: "spread base ((k, v) # kvs) = spread (set_prop k v base) kvs"
  by (simp add: spread_def)

lemma get_prop_set_prop: "get_prop k' (set_prop k v kvs) = (if k' = k then Some v else get_prop k' kvs)"
  by (induction kvs) auto

subsection \<open>The daily metric\<close>

lemma getUTCDay_range: "getUTCDay t < 7"
  by (simp add: getUTCDay_def)

lemma getter_metric:
  "get_prop ''metric'' (getFearAndGreed f up1) = Some (JStr ''fear_greed'')"
  "get_prop ''metric'' (getBTCDominance up2) = Some (JStr ''btc_dominance'')"
  "get_prop ''metric'' (getFundingRates up3) = Some (JStr ''funding_rates'')"
  "get_prop ''metric'' (getOpenInterest up4) = Some (JStr ''open_interest'')"
  "get_prop ''metric'' (getStablecoinSupply up5) = Some (JStr ''stablecoin_supply'')"
  by (simp_all add: getFearAndGreed_def getFallbackFearGreed_def getBTCDominance_def
      fallbackBTCDominance_def getFundingRates_def getFallbackFundingRates_def
      getOpenInterest_def getFallbackOpenInterest_def getStablecoinSupply_def
      fallbackStablecoinSupply_def Let_def
      split: upstream.splits list.splits option.splits)

lemma the_number_metric:
  "body_prop ''metric'' (handler_the_number env) =
     Some (JStr (metric_tag (selector (getUTCDay (de_now env)))))"
  by (simp add: body_prop_def handler_the_number_def the_number_try_def Let_def
      get_prop_set_prop getter_metric split: metric_kind.splits)

text \<open>
  C5. The selector maps day 1 to Fear and Greed, 2 to BTC dominance, 3 to funding
  rates, 4 to open interest, and 5, 6 and 0 (Friday, Saturday, Sunday) to stablecoin
  supply. It is a function of the day number alone.
\<close>

theorem selector_table:
  "selector 1 = FearGreed \<and> selector 2 = BtcDominance \<and> selector 3 = FundingRates \<and>
   selector 4 = OpenInterest \<and> selector 5 = StablecoinSupply \<and>
   selector 6 = StablecoinSupply \<and> selector 0 = StablecoinSupply"
  by (simp add: selector_def)

lemma parseInt_25: "parseInt ''25'' = Some 25"
  by (simp add: parseInt_def is_space_def digit_val_def Let_def)

lemma parseInt_259200: "parseInt ''259200'' = Some 259200"
  by (simp add: parseInt_def is_space_def digit_val_def Let_def)








text \<open>
  C7. At an average 8-hour rate of 0.0001 the fetcher computes \<open>annualized\<close> as
  \<open>0.0001 * 3 * 365 = 0.1095\<close>, with no factor 100, and its subtitle reads
  \<open>\<approx> 0% APR\<close>; the 10.95 percent of the claim would print as 11.
\<close>

theorem funding_rates_subtitle_0001:
  "funding_annualized (funding_avgRate (Some [Some (1 / 10000)])) = Some (1095 / 10000)
   \<and> get_prop ''subtitle''
        (getFundingRates (Body (Some [\<lparr>fr_symbol = ''BTC'', fr_uMarginList = Some [Some (1 / 10000)]\<rparr>])))
      = Some (JStr (approx_sign @ '' 0% APR''))
   \<and> toFixed 0 (Some (1 / 10000 * 3 * 365 * 100)) = ''11''"
  by (simp add: funding_annualized_def funding_avgRate_def or_zero_def getFundingRates_def
      get_prop_def toFixed_def toFixed_digits_def digit_char_def Let_def)

subsection \<open>The market snapshot\<close>

lemma market_refresh_fail_cache:
  "market_fetch env = Inl e \<Longrightarrow> next_cache (market_refresh env cache) = cache"
  by (simp add: market_refresh_def Let_def split: option.splits)

lemma market_handler_fail_cache:
  "market_fetch env = Inl e \<Longrightarrow> next_cache (handler_market_cache env cache) = cache"
  by (simp add: handler_market_cache_def Let_def market_refresh_fail_cache split: option.splits)

lemma market_calls_fail_cache:
  "list_all (\<lambda>e. isl (market_fetch e)) envs \<Longrightarrow> market_calls envs cache = cache"
proof (induction envs arbitrary: cache)
  case Nil
  then show ?case by simp
next
  case (Cons env envs)
  then obtain msg where "market_fetch env = Inl msg"
    by (cases "market_fetch env") auto
  with Cons show ?case
    by (simp add: market_handler_fail_cache)
qed

lemma market_refresh_success:
  assumes "market_fetch env = Inr (p, g)"
  shows "market_refresh env cache =
     \<lparr>res = \<lparr>status = 200, headers = market_headers,
              body = Some (JObj (spread (market_freshData p g (me_updated env) (me_now env))
                                   [(''cached'', JBool False)]))\<rparr>,
       next_cache = \<lparr>c_data = Some (market_freshData p g (me_updated env) (me_now env)),
                     c_timestamp = me_now env\<rparr>,
       requests = [price_url, global_url]\<rparr>"
  using assms by (simp add: market_refresh_def Let_def)

lemma market_miss:
  "c_data c = None \<or> CACHE_DURATION_market \<le> me_now env - c_timestamp c \<Longrightarrow>
   handler_market_cache env c = market_refresh env c"
  by (auto simp: handler_market_cache_def Let_def split: option.splits)

lemma market_handler_stale:
  assumes "market_fetch e1 = Inl msg" and "CACHE_DURATION_market \<le> me_now e1 - ts"
  shows "res (handler_market_cache e1 \<lparr>c_data = Some payload, c_timestamp = ts\<rparr>) =
        \<lparr>status = 200, headers = market_headers,
          body = Some (JObj (spread payload
                   [(''cached'', JBool True),
                    (''stale'', JBool True),
                    (''cacheAge'', JNum (of_int (cacheAge (me_now e1) ts))),
                    (''error'', JStr stale_error)]))\<rparr>"
  using assms by (simp add: handler_market_cache_def market_refresh_def Let_def)

lemma market_handler_hit:
  assumes "me_now e1 - ts < CACHE_DURATION_market"
  shows "handler_market_cache e1 \<lparr>c_data = Some payload, c_timestamp = ts\<rparr> =
        \<lparr>res = \<lparr>status = 200, headers = market_headers,
                 body = Some (cached_body payload (me_now e1) ts)\<rparr>,
          next_cache = \<lparr>c_data = Some payload, c_timestamp = ts\<rparr>, requests = []\<rparr>"
  using assms by (simp add: handler_market_cache_def Let_def)

text \<open>
  C3. The first call succeeds at \<open>t0\<close> on a cold cache; the provider fails on every
  later fetch; a call when the window of 300 s has passed (301 s in the claim) is
  answered with status 200 and the payload of \<open>t0\<close>, marked \<open>cached\<close>, \<open>stale\<close> and
  with the error text. It is not the fallback object: it has no \<open>fallback\<close> key.
\<close>

theorem market_stale_serving:
  assumes ok: "market_fetch e0 = Inr (p, g)"
    and between: "list_all (\<lambda>e. isl (market_fetch e)) es"
    and fails: "market_fetch e1 = Inl msg"
    and late: "CACHE_DURATION_market \<le> me_now e1 - me_now e0"
  shows "\<exists>payload.
      c_data (next_cache (handler_market_cache e0 empty_cache)) = Some payload \<and>
      body (res (handler_market_cache e0 empty_cache)) =
        Some (JObj (spread payload [(''cached'', JBool False)])) \<and>
      res (handler_market_cache e1
             (market_calls es (next_cache (handler_market_cache e0 empty_cache)))) =
        \<lparr>status = 200, headers = market_headers,
          body = Some (JObj (spread payload
                   [(''cached'', JBool True),
                    (''stale'', JBool True),
                    (''cacheAge'', JNum (of_int (cacheAge (me_now e1) (me_now e0)))),
                    (''error'', JStr stale_error)]))\<rparr> \<and>
      get_prop ''fallback'' (spread payload
                   [(''cached'', JBool True),
                    (''stale'', JBool True),
                    (''cacheAge'', JNum (of_int (cacheAge (me_now e1) (me_now e0)))),
                    (''error'', JStr stale_error)]) = None"
proof -
  let ?r0 = "handler_market_cache e0 empty_cache"
  let ?payload = "market_freshData p g (me_updated e0) (me_now e0)"
  have r0: "?r0 = market_refresh e0 empty_cache"
    by (rule market_miss) (simp add: empty_cache_def)
  have c0: "next_cache ?r0 = \<lparr>c_data = Some ?payload, c_timestamp = me_now e0\<rparr>"
    by (simp add: r0 market_refresh_success [OF ok])
  have b0: "body (res ?r0) = Some (JObj (spread ?payload [(''cached'', JBool False)]))"
    by (simp only: r0 market_refresh_success [OF ok] result.simps response.simps)
  have c1: "market_calls es c = c" for c
    using between by (rule market_calls_fail_cache)
  have r1: "res (handler_market_cache e1 (market_calls es (next_cache ?r0))) =
        \<lparr>status = 200, headers = market_headers,
          body = Some (JObj (spread ?payload
                   [(''cached'', JBool True),
                    (''stale'', JBool True),
                    (''cacheAge'', JNum (of_int (cacheAge (me_now e1) (me_now e0)))),
                    (''error'', JStr stale_error)]))\<rparr>"
  proof -
    have "handler_market_cache e1 (market_calls es (next_cache ?r0)) =
          handler_market_cache e1 \<lparr>c_data = Some ?payload, c_timestamp = me_now e0\<rparr>"
      by (simp only: c1 c0)
    then show ?thesis
      by (simp only: market_handler_stale [OF fails late])
  qed
  have d0: "c_data (next_cache ?r0) = Some ?payload"
    by (simp add: c0)
  have nf: "get_prop ''fallback'' (spread ?payload
                   [(''cached'', JBool True),
                    (''stale'', JBool True),
                    (''cacheAge'', JNum (of_int (cacheAge (me_now e1) (me_now e0)))),
                    (''error'', JStr stale_error)]) = None"
    by (simp add: market_freshData_def)
  from d0 b0 r1 nf show ?thesis
    by blast
qed

lemma ex_market_ok_fetch:
  "market_fetch ex_market_ok =
     Inr (\<lparr>pd_btc = JObj [(''price'', JNum 97000), (''change24h'', JNum (3 / 2)),
                           (''marketCap'', JNum 1900000000000)],
           pd_eth = JObj [(''price'', JNum 3600), (''change24h'', JNum 0),
                          (''marketCap'', JNum 430000000000)]\<rparr>,
          JObj [(''totalMarketCap'', JNum 3400000000000),
                (''totalVolume24h'', JNum 140000000000),
                (''marketCapChange24h'', JNum 1),
                (''btcDominance'', JNum 55),
                (''ethDominance'', JNum 12),
                (''activeCryptos'', JNum 9000)])"
  by (simp add: market_fetch_def ex_market_ok_def fetchPrices_def fetchGlobalData_def
      promise_all2_def price_entry_def or_zero_def)

lemma ex_market_down_fetch: "market_fetch (ex_market_down t) = Inl ''CoinGecko price API failed: 429''"
  by (simp add: market_fetch_def ex_market_down_def fetchPrices_def fetchGlobalData_def
      promise_all2_def digit_char_def)

theorem market_stale_serving_witness:
  "res (handler_market_cache (ex_market_down 301000)
          (market_calls [ex_market_down 100000, ex_market_down 200000]
             (next_cache (handler_market_cache ex_market_ok empty_cache)))) =
     \<lparr>status = 200, headers = market_headers,
       body = Some (JObj
         [(''btc'', JObj [(''price'', JNum 97000), (''change24h'', JNum (3 / 2)),
                          (''marketCap'', JNum 1900000000000)]),
          (''eth'', JObj [(''price'', JNum 3600), (''change24h'', JNum 0),
                          (''marketCap'', JNum 430000000000)]),
          (''market'', JObj [(''totalMarketCap'', JNum 3400000000000),
                             (''totalVolume24h'', JNum 140000000000),
                             (''marketCapChange24h'', JNum 1),
                             (''btcDominance'', JNum 55),
                             (''ethDominance'', JNum 12),
                             (''activeCryptos'', JNum 9000)]),
          (''updated'', JStr ''1970-01-01T00:00:00.000Z''),
          (''updatedTimestamp'', JNum 0),
          (''cached'', JBool True),
          (''stale'', JBool True),
          (''cacheAge'', JNum 301),
          (''error'', JStr ''Using stale data due to API error'')])\<rparr>"
proof -
  have between: "list_all (\<lambda>e. isl (market_fetch e)) [ex_market_down 100000, ex_market_down 200000]"
    by (simp add: ex_market_down_fetch)
  have late: "CACHE_DURATION_market \<le> me_now (ex_market_down 301000) - me_now ex_market_ok"
    by (simp add: CACHE_DURATION_market_def ex_market_down_def ex_market_ok_def)
  have c0: "c_data (next_cache (handler_market_cache ex_market_ok empty_cache)) =
      Some (market_freshData
        \<lparr>pd_btc = JObj [(''price'', JNum 97000), (''change24h'', JNum (3 / 2)),
                         (''marketCap'', JNum 1900000000000)],
          pd_eth = JObj [(''price'', JNum 3600), (''change24h'', JNum 0),
                         (''marketCap'', JNum 430000000000)]\<rparr>
        (JObj [(''totalMarketCap'', JNum 3400000000000),
                (''totalVolume24h'', JNum 140000000000),
                (''marketCapChange24h'', JNum 1),
                (''btcDominance'', JNum 55),
                (''ethDominance'', JNum 12),
                (''activeCryptos'', JNum 9000)])
        (me_updated ex_market_ok) (me_now ex_market_ok))"
    by (simp add: market_miss empty_cache_def market_refresh_success [OF ex_market_ok_fetch])
  from market_stale_serving [OF ex_market_ok_fetch between ex_market_down_fetch late]
  show ?thesis
    unfolding c0
    by (simp add: market_freshData_def ex_market_ok_def ex_market_down_def cacheAge_def
        stale_error_def)
qed

subsection \<open>Cache hits and the daily metric\<close>


lemma keys_getFearAndGreed: "keys (getFearAndGreed f up) = metric_keys"
  by (simp add: getFearAndGreed_def getFallbackFearGreed_def keys_def metric_keys_def Let_def
      split: upstream.splits list.splits option.splits)

lemma keys_getBTCDominance: "keys (getBTCDominance up) = metric_keys"
  by (simp add: getBTCDominance_def fallbackBTCDominance_def keys_def metric_keys_def Let_def
      split: upstream.splits)

lemma keys_getFundingRates: "keys (getFundingRates up) = metric_keys"
  by (simp add: getFundingRates_def getFallbackFundingRates_def keys_def metric_keys_def Let_def
      split: upstream.splits option.splits)

lemma keys_getOpenInterest: "keys (getOpenInterest up) = metric_keys"
  by (simp add: getOpenInterest_def getFallbackOpenInterest_def keys_def metric_keys_def Let_def
      split: upstream.splits option.splits)

lemma keys_getStablecoinSupply: "keys (getStablecoinSupply up) = metric_keys"
  by (simp add: getStablecoinSupply_def fallbackStablecoinSupply_def keys_def metric_keys_def Let_def
      split: upstream.splits)

lemma get_prop_None_iff: "get_prop k kvs = None \<longleftrightarrow> k \<notin> set (keys kvs)"
  by (simp add: get_prop_def keys_def map_of_eq_None_iff)

lemma keys_set_prop_new: "k \<notin> set (keys kvs) \<Longrightarrow> keys (set_prop k v kvs) = keys kvs @ [k]"
  by (induction kvs) (auto simp: keys_def)

lemma the_number_try_keys:
  "\<exists>obj. the_number_try env = Inr obj \<and> keys obj = metric_keys @ [''dayOfWeek'', ''updated'']"
  by (simp add: the_number_try_def Let_def keys_set_prop_new keys_getFearAndGreed
      keys_getBTCDominance keys_getFundingRates keys_getOpenInterest keys_getStablecoinSupply
      metric_keys_def split: metric_kind.splits)

lemma the_number_no_cached: "body_prop ''cached'' (handler_the_number env) = None"
proof -
  obtain obj where o: "the_number_try env = Inr obj"
    and k: "keys obj = metric_keys @ [''dayOfWeek'', ''updated'']"
    using the_number_try_keys by blast
  have "get_prop ''cached'' obj = None"
    unfolding get_prop_None_iff k by (simp add: metric_keys_def)
  then show ?thesis
    by (simp add: body_prop_def handler_the_number_def o)
qed

lemma the_number_requests_one: "length (the_number_requests env) = 1"
  by (simp add: the_number_requests_def split: metric_kind.splits)

lemma the_number_requests_nonempty: "the_number_requests env \<noteq> []"
  by (simp add: the_number_requests_def split: metric_kind.splits)


lemma coins_miss:
  "c_data c = None \<or> CACHE_DURATION_coins \<le> ce_now env - c_timestamp c \<Longrightarrow>
   handler_coins_cache env c = coins_refresh env c"
  by (auto simp: handler_coins_cache_def Let_def split: option.splits)

lemma coins_refresh_success:
  assumes "ce_coins env = Inr coins"
  shows "coins_refresh env cache =
     \<lparr>res = \<lparr>status = 200, headers = coins_headers,
              body = Some (JObj (spread (coins_freshData coins (ce_updated env) (ce_now env))
                                   [(''cached'', JBool False)]))\<rparr>,
       next_cache = \<lparr>c_data = Some (coins_freshData coins (ce_updated env) (ce_now env)),
                     c_timestamp = ce_now env\<rparr>,
       requests = [coins_url]\<rparr>"
  using assms by (simp add: coins_refresh_def Let_def)

lemma coins_handler_hit:
  assumes "ce_now e1 - ts < CACHE_DURATION_coins"
  shows "handler_coins_cache e1 \<lparr>c_data = Some payload, c_timestamp = ts\<rparr> =
        \<lparr>res = \<lparr>status = 200, headers = coins_headers,
                 body = Some (cached_body payload (ce_now e1) ts)\<rparr>,
          next_cache = \<lparr>c_data = Some payload, c_timestamp = ts\<rparr>, requests = []\<rparr>"
  using assms by (simp add: handler_coins_cache_def Let_def)

lemma personal_miss:
  "pc_data c = None \<or> pc_date c \<noteq> Some (pe_today env) \<Longrightarrow>
   handler_personal_cache env c = personal_refresh env c"
  by (auto simp: handler_personal_cache_def Let_def split: option.splits)

lemma personal_refresh_success:
  assumes "promise_all2 (pe_coins env) (pe_marketHistory env) = Inr (coins, m)"
  shows "personal_refresh env cache =
     \<lparr>res = \<lparr>status = 200, headers = personal_headers,
              body = Some (JObj (spread
                (personal_freshData coins m (pe_updated env) (pe_now env) (pe_today env))
                [(''cached'', JBool False)]))\<rparr>,
       next_cache = \<lparr>pc_data = Some (personal_freshData coins m (pe_updated env) (pe_now env)
                                       (pe_today env)),
                     pc_timestamp = pe_now env, pc_date = Some (pe_today env)\<rparr>,
       requests = [personal_coins_url, global_url]\<rparr>"
  using assms by (simp add: personal_refresh_def Let_def)

lemma personal_handler_hit:
  assumes "pe_today e1 = d"
  shows "handler_personal_cache e1 \<lparr>pc_data = Some payload, pc_timestamp = ts, pc_date = Some d\<rparr> =
        \<lparr>res = \<lparr>status = 200, headers = personal_headers,
                 body = Some (cached_body payload (pe_now e1) ts)\<rparr>,
          next_cache = \<lparr>pc_data = Some payload, pc_timestamp = ts, pc_date = Some d\<rparr>,
          requests = []\<rparr>"
  using assms by (simp add: handler_personal_cache_def Let_def)

lemma market_hit_after_fetch:
  assumes ok: "market_fetch e0 = Inr (p, g)"
    and miss: "c_data c0 = None \<or> CACHE_DURATION_market \<le> me_now e0 - c_timestamp c0"
    and soon: "me_now e1 - me_now e0 < CACHE_DURATION_market"
  shows "\<exists>obj0. body (res (handler_market_cache e0 c0)) = Some (JObj obj0) \<and>
           handler_market_cache e1 (next_cache (handler_market_cache e0 c0)) =
             \<lparr>res = \<lparr>status = 200, headers = market_headers,
                      body = Some (JObj (spread obj0
                        [(''cached'', JBool True),
                         (''cacheAge'', JNum (of_int (cacheAge (me_now e1) (me_now e0))))]))\<rparr>,
               next_cache = next_cache (handler_market_cache e0 c0),
               requests = []\<rparr>"
proof -
  let ?payload = "market_freshData p g (me_updated e0) (me_now e0)"
  have r0: "handler_market_cache e0 c0 = market_refresh e0 c0"
    using miss by (rule market_miss)
  have c0: "next_cache (handler_market_cache e0 c0) =
      \<lparr>c_data = Some ?payload, c_timestamp = me_now e0\<rparr>"
    by (simp add: r0 market_refresh_success [OF ok])
  have b0: "body (res (handler_market_cache e0 c0)) =
      Some (JObj (spread ?payload [(''cached'', JBool False)]))"
    by (simp only: r0 market_refresh_success [OF ok] result.simps response.simps)
  have same: "cached_body ?payload (me_now e1) (me_now e0) =
      JObj (spread (spread ?payload [(''cached'', JBool False)])
        [(''cached'', JBool True),
         (''cacheAge'', JNum (of_int (cacheAge (me_now e1) (me_now e0))))])"
    by (simp add: cached_body_def market_freshData_def)
  have "handler_market_cache e1 (next_cache (handler_market_cache e0 c0)) =
             \<lparr>res = \<lparr>status = 200, headers = market_headers,
                      body = Some (cached_body ?payload (me_now e1) (me_now e0))\<rparr>,
               next_cache = next_cache (handler_market_cache e0 c0),
               requests = []\<rparr>"
    unfolding c0 using soon by (rule market_handler_hit)
  with b0 same show ?thesis
    by simp
qed


lemma coins_hit_after_fetch:
  assumes ok: "ce_coins e0 = Inr coins"
    and miss: "c_data c0 = None \<or> CACHE_DURATION_coins \<le> ce_now e0 - c_timestamp c0"
    and soon: "ce_now e1 - ce_now e0 < CACHE_DURATION_coins"
  shows "\<exists>obj0. body (res (handler_coins_cache e0 c0)) = Some (JObj obj0) \<and>
           handler_coins_cache e1 (next_cache (handler_coins_cache e0 c0)) =
             \<lparr>res = \<lparr>status = 200, headers = coins_headers,
                      body = Some (JObj (spread obj0
                        [(''cached'', JBool True),
                         (''cacheAge'', JNum (of_int (cacheAge (ce_now e1) (ce_now e0))))]))\<rparr>,
               next_cache = next_cache (handler_coins_cache e0 c0),
               requests = []\<rparr>"
proof -
  let ?payload = "coins_freshData coins (ce_updated e0) (ce_now e0)"
  have r0: "handler_coins_cache e0 c0 = coins_refresh e0 c0"
    using miss by (rule coins_miss)
  have c0: "next_cache (handler_coins_cache e0 c0) =
      \<lparr>c_data = Some ?payload, c_timestamp = ce_now e0\<rparr>"
    by (simp add: r0 coins_refresh_success [OF ok])
  have b0: "body (res (handler_coins_cache e0 c0)) =
      Some (JObj (spread ?payload [(''cached'', JBool False)]))"
    by (simp only: r0 coins_refresh_success [OF ok] result.simps response.simps)
  have same: "cached_body ?payload (ce_now e1) (ce_now e0) =
      JObj (spread (spread ?payload [(''cached'', JBool False)])
        [(''cached'', JBool True),
         (''cacheAge'', JNum (of_int (cacheAge (ce_now e1) (ce_now e0))))])"
    by (simp add: cached_body_def coins_freshData_def)
  have "handler_coins_cache e1 (next_cache (handler_coins_cache e0 c0)) =
             \<lparr>res = \<lparr>status = 200, headers = coins_headers,
                      body = Some (cached_body ?payload (ce_now e1) (ce_now e0))\<rparr>,
               next_cache = next_cache (handler_coins_cache e0 c0),
               requests = []\<rparr>"
    unfolding c0 using soon by (rule coins_handler_hit)
  with b0 same show ?thesis
    by simp
qed

lemma personal_hit_after_fetch:
  assumes ok: "promise_all2 (pe_coins e0) (pe_marketHistory e0) = Inr (coins, m)"
    and miss: "pc_data c0 = None \<or> pc_date c0 \<noteq> Some (pe_today e0)"
    and same_day: "pe_today e1 = pe_today e0"
  shows "\<exists>obj0. body (res (handler_personal_cache e0 c0)) = Some (JObj obj0) \<and>
           handler_personal_cache e1 (next_cache (handler_personal_cache e0 c0)) =
             \<lparr>res = \<lparr>status = 200, headers = personal_headers,
                      body = Some (JObj (spread obj0
                        [(''cached'', JBool True),
                         (''cacheAge'', JNum (of_int (cacheAge (pe_now e1) (pe_now e0))))]))\<rparr>,
               next_cache = next_cache (handler_personal_cache e0 c0),
               requests = []\<rparr>"
proof -
  let ?payload = "personal_freshData coins m (pe_updated e0) (pe_now e0) (pe_today e0)"
  have r0: "handler_personal_cache e0 c0 = personal_refresh e0 c0"
    using miss by (rule personal_miss)
  have c0: "next_cache (handler_personal_cache e0 c0) =
      \<lparr>pc_data = Some ?payload, pc_timestamp = pe_now e0, pc_date = Some (pe_today e0)\<rparr>"
    by (simp add: r0 personal_refresh_success [OF ok])
  have b0: "body (res (handler_personal_cache e0 c0)) =
      Some (JObj (spread ?payload [(''cached'', JBool False)]))"
    by (simp only: r0 personal_refresh_success [OF ok] result.simps response.simps)
  have same: "cached_body ?payload (pe_now e1) (pe_now e0) =
      JObj (spread (spread ?payload [(''cached'', JBool False)])
        [(''cached'', JBool True),
         (''cacheAge'', JNum (of_int (cacheAge (pe_now e1) (pe_now e0))))])"
    by (simp add: cached_body_def personal_freshData_def)
  have "handler_personal_cache e1 (next_cache (handler_personal_cache e0 c0)) =
             \<lparr>res = \<lparr>status = 200, headers = personal_headers,
                      body = Some (cached_body ?payload (pe_now e1) (pe_now e0))\<rparr>,
               next_cache = next_cache (handler_personal_cache e0 c0),
               requests = []\<rparr>"
    unfolding c0 using same_day by (rule personal_handler_hit)
  with b0 same show ?thesis
    by simp
qed


lemma ex_daily_monday_day:
  "getUTCDay (de_now (ex_daily_monday 0)) = 1" "getUTCDay (de_now (ex_daily_monday 60000)) = 1"
  by (simp_all add: getUTCDay_def ex_daily_monday_def)

lemma ex_daily_monday_fields:
  "de_fear_greed (ex_daily_monday t) =
     Body [\<lparr>fng_value = ''25'', fng_value_classification = ''Extreme Fear'',
             fng_timestamp = ''259200''\<rparr>]"
  "de_updated (ex_daily_monday t) = ''1970-01-05T00:00:00.000Z''"
  "de_isoText (ex_daily_monday t) = (\<lambda>ms. ''1970-01-04T00:00:00.000Z'')"
  by (simp_all add: ex_daily_monday_def)

text \<open>
  C2, as stated, fails for the daily metric. On Monday 5 January 1970 the handler
  answers from the provider; one minute later it asks the provider again and its
  answer has no \<open>cached\<close> field: the handler keeps no cache.
\<close>

theorem daily_metric_refetches:
  "body (handler_the_number (ex_daily_monday 0)) =
     Some (JObj [(''metric'', JStr ''fear_greed''),
                 (''label'', JStr ''FEAR & GREED''),
                 (''value'', JStr ''25''),
                 (''numericValue'', JNum 25),
                 (''unit'', JStr ''/100''),
                 (''subtitle'', JStr ''Extreme Fear''),
                 (''context'', JStr ''Fear dominates - crowd is nervous, but not panicking''),
                 (''interpretation'', JStr ''cautious''),
                 (''change'', JNull),
                 (''history'', JArr [JObj [(''value'', JNum 25),
                                           (''date'', JStr ''1970-01-04T00:00:00.000Z'')]]),
                 (''historyLabel'', JStr ''6 months''),
                 (''source'', JStr ''alternative.me''),
                 (''dayOfWeek'', JNum 1),
                 (''updated'', JStr ''1970-01-05T00:00:00.000Z'')])
   \<and> the_number_requests (ex_daily_monday 60000) = [''https://api.alternative.me/fng/?limit=180'']
   \<and> body_prop ''cached'' (handler_the_number (ex_daily_monday 60000)) = None"
  by (simp add: handler_the_number_def the_number_try_def the_number_requests_def
      ex_daily_monday_day selector_def getFearAndGreed_def
      fg_history_point_def parseInt_25 parseInt_259200 fear_greed_interpretation_def js_le_def
      js_sub_def fg_change_def show_jsint_def show_int_def int_json_def body_prop_def Let_def
      digit_char_def ex_daily_monday_fields)

text \<open>
  C2, amended. For the market snapshot (window 300 s) and the top 100 coins (window
  900 s): when an invocation at \<open>t0\<close> finds no fresh entry and its fetch succeeds, an
  invocation within the window of \<open>t0\<close> issues no upstream request and answers with
  the object of the first answer, \<open>cached\<close> set to true and \<open>cacheAge\<close> added. The
  handler of the daily metric issues a request on every invocation and never
  answers with a \<open>cached\<close> field.
\<close>

theorem cache_hit_within_window:
  "(market_fetch e0 = Inr (p, g) \<and>
    (c_data c0 = None \<or> CACHE_DURATION_market \<le> me_now e0 - c_timestamp c0) \<and>
    me_now e1 - me_now e0 < CACHE_DURATION_market \<longrightarrow>
      (\<exists>obj0. body (res (handler_market_cache e0 c0)) = Some (JObj obj0) \<and>
           handler_market_cache e1 (next_cache (handler_market_cache e0 c0)) =
             \<lparr>res = \<lparr>status = 200, headers = market_headers,
                      body = Some (JObj (spread obj0
                        [(''cached'', JBool True),
                         (''cacheAge'', JNum (of_int (cacheAge (me_now e1) (me_now e0))))]))\<rparr>,
               next_cache = next_cache (handler_market_cache e0 c0),
               requests = []\<rparr>))
   \<and> (ce_coins f0 = Inr coins \<and>
    (c_data d0 = None \<or> CACHE_DURATION_coins \<le> ce_now f0 - c_timestamp d0) \<and>
    ce_now f1 - ce_now f0 < CACHE_DURATION_coins \<longrightarrow>
      (\<exists>obj0. body (res (handler_coins_cache f0 d0)) = Some (JObj obj0) \<and>
           handler_coins_cache f1 (next_cache (handler_coins_cache f0 d0)) =
             \<lparr>res = \<lparr>status = 200, headers = coins_headers,
                      body = Some (JObj (spread obj0
                        [(''cached'', JBool True),
                         (''cacheAge'', JNum (of_int (cacheAge (ce_now f1) (ce_now f0))))]))\<rparr>,
               next_cache = next_cache (handler_coins_cache f0 d0),
               requests = []\<rparr>))
   \<and> CACHE_DURATION_market = 300000 \<and> CACHE_DURATION_coins = 900000
   \<and> the_number_requests env \<noteq> []
   \<and> body_prop ''cached'' (handler_the_number env) = None
   \<and> length (the_number_requests env) = 1"
  using market_hit_after_fetch [of e0 p g c0 e1] coins_hit_after_fetch [of f0 coins d0 f1]
    the_number_requests_nonempty [of env] the_number_no_cached [of env]
    the_number_requests_one [of env]
  by (simp add: CACHE_DURATION_market_def CACHE_DURATION_coins_def)

theorem cache_hit_within_window_witness:
  "requests (handler_market_cache (ex_market_down 299999)
               (next_cache (handler_market_cache ex_market_ok empty_cache))) = []
   \<and> body_prop ''cached'' (res (handler_market_cache (ex_market_down 299999)
               (next_cache (handler_market_cache ex_market_ok empty_cache)))) = Some (JBool True)
   \<and> body_prop ''cacheAge'' (res (handler_market_cache (ex_market_down 299999)
               (next_cache (handler_market_cache ex_market_ok empty_cache)))) = Some (JNum 300)
   \<and> requests (handler_coins_cache (ex_coins_down 899999)
               (next_cache (handler_coins_cache ex_coins_ok empty_cache))) = []
   \<and> body_prop ''cached'' (res (handler_coins_cache (ex_coins_down 899999)
               (next_cache (handler_coins_cache ex_coins_ok empty_cache)))) = Some (JBool True)
   \<and> body_prop ''cacheAge'' (res (handler_coins_cache (ex_coins_down 899999)
               (next_cache (handler_coins_cache ex_coins_ok empty_cache)))) = Some (JNum 900)"
proof -
  have miss_m: "c_data empty_cache = None \<or>
      CACHE_DURATION_market \<le> me_now ex_market_ok - c_timestamp empty_cache"
    by (simp add: empty_cache_def)
  have soon_m: "me_now (ex_market_down 299999) - me_now ex_market_ok < CACHE_DURATION_market"
    by (simp add: ex_market_down_def ex_market_ok_def CACHE_DURATION_market_def)
  have ok_c: "ce_coins ex_coins_ok = Inr [JObj [(''id'', JStr ''bitcoin''), (''symbol'', JStr ''BTC'')]]"
    by (simp add: ex_coins_ok_def)
  have miss_c: "c_data empty_cache = None \<or>
      CACHE_DURATION_coins \<le> ce_now ex_coins_ok - c_timestamp empty_cache"
    by (simp add: empty_cache_def)
  have soon_c: "ce_now (ex_coins_down 899999) - ce_now ex_coins_ok < CACHE_DURATION_coins"
    by (simp add: ex_coins_down_def ex_coins_ok_def CACHE_DURATION_coins_def)
  note m = cache_hit_within_window [THEN conjunct1, THEN mp,
      OF conjI [OF ex_market_ok_fetch conjI [OF miss_m soon_m]]]
  note c = cache_hit_within_window [THEN conjunct2, THEN conjunct1, THEN mp,
      OF conjI [OF ok_c conjI [OF miss_c soon_c]]]
  from m obtain obj0 where m1:
    "handler_market_cache (ex_market_down 299999)
       (next_cache (handler_market_cache ex_market_ok empty_cache)) =
     \<lparr>res = \<lparr>status = 200, headers = market_headers,
              body = Some (JObj (spread obj0
                [(''cached'', JBool True),
                 (''cacheAge'', JNum (of_int (cacheAge (me_now (ex_market_down 299999))
                                                (me_now ex_market_ok))))]))\<rparr>,
       next_cache = next_cache (handler_market_cache ex_market_ok empty_cache),
       requests = []\<rparr>"
    by blast
  from c obtain obj1 where c1:
    "handler_coins_cache (ex_coins_down 899999)
       (next_cache (handler_coins_cache ex_coins_ok empty_cache)) =
     \<lparr>res = \<lparr>status = 200, headers = coins_headers,
              body = Some (JObj (spread obj1
                [(''cached'', JBool True),
                 (''cacheAge'', JNum (of_int (cacheAge (ce_now (ex_coins_down 899999))
                                                (ce_now ex_coins_ok))))]))\<rparr>,
       next_cache = next_cache (handler_coins_cache ex_coins_ok empty_cache),
       requests = []\<rparr>"
    by blast
  show ?thesis
    unfolding m1 c1
    by (simp add: body_prop_def get_prop_set_prop cacheAge_def ex_market_down_def
        ex_market_ok_def ex_coins_down_def ex_coins_ok_def)
qed

subsection \<open>Status codes\<close>


lemma status_market: "status (res (handler_market_cache env c)) = 200"
  by (simp add: handler_market_cache_def market_refresh_def Let_def
      split: option.splits sum.splits prod.splits)

lemma status_mood: "status (handler_market_mood env) = 200"
  by (simp add: handler_market_mood_def split: sum.splits)

lemma status_the_number: "status (handler_the_number env) = 200"
  by (simp add: handler_the_number_def split: sum.splits)

lemma status_etf: "status (handler_etf_flows env) = 200"
  by (simp add: handler_etf_flows_def split: upstream.splits)

lemma status_coins:
  "status (res (handler_coins_cache env c)) = (if isl (ce_coins env) \<and> c_data c = None then 500 else 200)"
  by (auto simp: handler_coins_cache_def coins_refresh_def Let_def
      split: option.splits sum.splits)

lemma status_personal:
  "status (res (handler_personal_cache env c)) =
     (if isl (promise_all2 (pe_coins env) (pe_marketHistory env)) \<and> pc_data c = None
      then 500 else 200)"
  by (auto simp: handler_personal_cache_def personal_refresh_def Let_def
      split: option.splits sum.splits)

lemma status_breakdown:
  "status (handler_breakdown env) = (if isl (breakdown_try env) then 500 else 200)"
  by (simp add: handler_breakdown_def split: sum.splits)

lemma error_coins:
  "status (res (handler_coins_cache env c)) = 500 \<Longrightarrow>
   body_prop ''error'' (res (handler_coins_cache env c)) = Some (JStr ''Failed to fetch coin data'')"
  by (auto simp: handler_coins_cache_def coins_refresh_def Let_def body_prop_def
      split: option.splits sum.splits if_splits)

lemma error_personal:
  "status (res (handler_personal_cache env c)) = 500 \<Longrightarrow>
   body_prop ''error'' (res (handler_personal_cache env c)) =
     Some (JStr ''Failed to fetch personal data'')"
  by (auto simp: handler_personal_cache_def personal_refresh_def Let_def body_prop_def
      split: option.splits sum.splits if_splits)

lemma error_breakdown:
  "status (handler_breakdown env) = 500 \<Longrightarrow>
   body_prop ''error'' (handler_breakdown env) = Some (JStr ''Failed to fetch podcast feed'')"
  by (auto simp: handler_breakdown_def body_prop_def split: sum.splits)

text \<open>
  C1, as stated, fails: the top 100 coins are not the only endpoint with a status
  500. With an empty cache and a failing provider the handler of the personal data
  answers 500, and the handler of the podcast feed, which has no cache and no
  fallback, answers 500 when the feed is down.
\<close>

theorem personal_and_podcast_500:
  "status (res (handler_personal_cache ex_personal_down empty_personal_cache)) = 500
   \<and> status (handler_breakdown ex_feed_down) = 500"
  by (simp add: status_personal status_breakdown ex_personal_down_def empty_personal_cache_def
      promise_all2_def breakdown_try_def ex_feed_down_def)

text \<open>
  C1, amended. The handlers with a fallback object (market snapshot, market mood,
  daily metric, ETF flows) answer 200 on every path. The top 100 coins and the
  personal data answer 500 exactly when the fetch fails and the cache is empty, the
  podcast feed exactly when its fetch or parse fails; each 500 carries a JSON object
  with an \<open>error\<close> field.
\<close>

theorem handler_statuses:
  "status (res (handler_market_cache me c)) = 200
   \<and> status (handler_market_mood mo) = 200
   \<and> status (handler_the_number de) = 200
   \<and> status (handler_etf_flows ee) = 200
   \<and> status (res (handler_coins_cache ce cc)) =
       (if isl (ce_coins ce) \<and> c_data cc = None then 500 else 200)
   \<and> status (res (handler_personal_cache pe pc)) =
       (if isl (promise_all2 (pe_coins pe) (pe_marketHistory pe)) \<and> pc_data pc = None
        then 500 else 200)
   \<and> status (handler_breakdown bd) = (if isl (breakdown_try bd) then 500 else 200)
   \<and> (status (res (handler_coins_cache ce cc)) = 500 \<longrightarrow>
        body_prop ''error'' (res (handler_coins_cache ce cc)) =
          Some (JStr ''Failed to fetch coin data''))
   \<and> (status (res (handler_personal_cache pe pc)) = 500 \<longrightarrow>
        body_prop ''error'' (res (handler_personal_cache pe pc)) =
          Some (JStr ''Failed to fetch personal data''))
   \<and> (status (handler_breakdown bd) = 500 \<longrightarrow>
        body_prop ''error'' (handler_breakdown bd) = Some (JStr ''Failed to fetch podcast feed''))"
  using status_market [of me c] status_mood [of mo] status_the_number [of de] status_etf [of ee]
    status_coins [of ce cc] status_personal [of pe pc] status_breakdown [of bd]
    error_coins [of ce cc] error_personal [of pe pc] error_breakdown [of bd]
  by (intro conjI impI) assumption+

theorem handler_statuses_witness:
  "status (res (handler_coins_cache (ex_coins_down 0) empty_cache)) = 500
   \<and> body_prop ''error'' (res (handler_coins_cache (ex_coins_down 0) empty_cache)) =
        Some (JStr ''Failed to fetch coin data'')
   \<and> status (res (handler_personal_cache ex_personal_down empty_personal_cache)) = 500
   \<and> body_prop ''error'' (res (handler_personal_cache ex_personal_down empty_personal_cache)) =
        Some (JStr ''Failed to fetch personal data'')
   \<and> status (handler_breakdown ex_feed_down) = 500
   \<and> body_prop ''error'' (handler_breakdown ex_feed_down) = Some (JStr ''Failed to fetch podcast feed'')
   \<and> status (res (handler_market_cache (ex_market_down 0) empty_cache)) = 200"
proof -
  note t = handler_statuses [of "ex_market_down 0" empty_cache _ _ _ "ex_coins_down 0" empty_cache
      ex_personal_down empty_personal_cache ex_feed_down]
  have c: "isl (ce_coins (ex_coins_down 0)) \<and> c_data empty_cache = None"
    by (simp add: ex_coins_down_def empty_cache_def)
  have p: "isl (promise_all2 (pe_coins ex_personal_down) (pe_marketHistory ex_personal_down)) \<and>
      pc_data empty_personal_cache = None"
    by (simp add: ex_personal_down_def empty_personal_cache_def promise_all2_def)
  have b: "isl (breakdown_try ex_feed_down)"
    by (simp add: breakdown_try_def ex_feed_down_def)
  from t c p b show ?thesis
    by simp
qed

subsection \<open>Market mood\<close>



subsection \<open>Fallback responses\<close>


lemma market_fallback_response:
  "market_fetch env = Inl msg \<Longrightarrow> c_data c = None \<Longrightarrow>
   res (handler_market_cache env c) =
     \<lparr>status = 200, headers = market_headers,
       body = Some (JObj (getFallbackData (me_fallback_updated env) (me_fallback_now env)))\<rparr>"
  by (simp add: handler_market_cache_def market_refresh_def Let_def)

lemma nested_keys_simps [simp]:
  "nested_keys (JObj kvs) = keys kvs"
  "nested_keys JNull = []"
  "nested_keys (JBool b) = []"
  "nested_keys (JNum x) = []"
  "nested_keys (JStr s) = []"
  "nested_keys (JArr xs) = []"
  by (simp_all add: nested_keys_def)

lemma market_fetch_schema:
  assumes "market_fetch env = Inr (p, g)"
  shows "schema (spread (market_freshData p g u n) [(''cached'', JBool False)]) @ [(''fallback'', [])] =
         schema (getFallbackData u' n')"
proof -
  from assms obtain pb gb where pb: "me_prices env = Body pb" and gb: "me_global env = Body gb"
    by (auto simp: market_fetch_def promise_all2_def fetchPrices_def fetchGlobalData_def
        split: upstream.splits sum.splits)
  from assms have p: "p = \<lparr>pd_btc = price_entry (bitcoin pb), pd_eth = price_entry (ethereum pb)\<rparr>"
    by (simp add: market_fetch_def promise_all2_def fetchPrices_def fetchGlobalData_def pb gb Let_def)
  from assms have g: "nested_keys g = [''totalMarketCap'', ''totalVolume24h'', ''marketCapChange24h'',
      ''btcDominance'', ''ethDominance'', ''activeCryptos'']"
    by (auto simp: market_fetch_def promise_all2_def fetchPrices_def fetchGlobalData_def pb gb Let_def
        keys_def)
  show ?thesis
    by (simp add: schema_def market_freshData_def getFallbackData_def p g price_entry_def
        keys_def)
qed

lemma the_number_try_Inr: "\<exists>obj. the_number_try env = Inr obj"
  by (simp add: the_number_try_def Let_def)

lemma getter_fallbacks:
  "upstream_failed up1 \<Longrightarrow> getFearAndGreed f up1 = getFallbackFearGreed"
  "upstream_failed up2 \<Longrightarrow> getBTCDominance up2 = fallbackBTCDominance"
  "upstream_failed up3 \<Longrightarrow> getFundingRates up3 = getFallbackFundingRates"
  "upstream_failed up4 \<Longrightarrow> getOpenInterest up4 = getFallbackOpenInterest"
  "upstream_failed up5 \<Longrightarrow> getStablecoinSupply up5 = fallbackStablecoinSupply"
  by (simp_all add: upstream_failed_def getFearAndGreed_def getBTCDominance_def getFundingRates_def
      getOpenInterest_def getStablecoinSupply_def split: upstream.splits)

lemma daily_fallback_response:
  assumes "daily_upstream_failed env"
  shows "handler_the_number env =
     \<lparr>status = 200, headers = the_number_headers,
       body = Some (JObj (spread (fetcher_fallback (selector (getUTCDay (de_now env))))
                [(''dayOfWeek'', JNum (real (getUTCDay (de_now env)))),
                 (''updated'', JStr (de_updated env))]))\<rparr>"
  using assms
  by (simp add: handler_the_number_def the_number_try_def daily_upstream_failed_def Let_def
      getter_fallbacks split: metric_kind.splits)

lemma fetcher_fallback_source: "get_prop ''source'' (fetcher_fallback kind) = Some (JStr ''fallback'')"
  by (cases kind)
    (simp_all add: getFallbackFearGreed_def fallbackBTCDominance_def getFallbackFundingRates_def
      getFallbackOpenInterest_def fallbackStablecoinSupply_def)


lemma nested_keys_values [simp]:
  "nested_keys (num_json x) = []"
  "nested_keys (int_json y) = []"
  "nested_keys (fg_change c) = []"
  "nested_keys (stablecoin_change a) = []"
  by (simp_all add: num_json_def int_json_def fg_change_def stablecoin_change_def
      split: option.splits)

lemma schema_getFearAndGreed: "schema (getFearAndGreed f up) = map (\<lambda>k. (k, [])) metric_keys"
  by (simp add: getFearAndGreed_def getFallbackFearGreed_def schema_def metric_keys_def Let_def
      split: upstream.splits list.splits option.splits)

lemma schema_getBTCDominance: "schema (getBTCDominance up) = map (\<lambda>k. (k, [])) metric_keys"
  by (simp add: getBTCDominance_def fallbackBTCDominance_def schema_def metric_keys_def Let_def
      split: upstream.splits)

lemma schema_getFundingRates: "schema (getFundingRates up) = map (\<lambda>k. (k, [])) metric_keys"
  by (simp add: getFundingRates_def getFallbackFundingRates_def schema_def metric_keys_def Let_def
      split: upstream.splits option.splits)

lemma schema_getOpenInterest: "schema (getOpenInterest up) = map (\<lambda>k. (k, [])) metric_keys"
  by (simp add: getOpenInterest_def getFallbackOpenInterest_def schema_def metric_keys_def Let_def
      split: upstream.splits option.splits)

lemma schema_getStablecoinSupply: "schema (getStablecoinSupply up) = map (\<lambda>k. (k, [])) metric_keys"
  by (simp add: getStablecoinSupply_def fallbackStablecoinSupply_def schema_def metric_keys_def
      Let_def split: upstream.splits)

lemma schema_set_prop_new:
  "k \<notin> set (keys kvs) \<Longrightarrow> schema (set_prop k v kvs) = schema kvs @ [(k, nested_keys v)]"
  by (induction kvs) (auto simp: keys_def schema_def)

lemma keys_schema: "keys kvs = map fst (schema kvs)"
  by (simp add: keys_def schema_def comp_def)

lemma the_number_schema:
  "\<exists>obj. the_number_try env = Inr obj \<and>
     schema obj = map (\<lambda>k. (k, [])) (metric_keys @ [''dayOfWeek'', ''updated''])"
proof -
  define data where "data =
     (case selector (getUTCDay (de_now env)) of
        FearGreed \<Rightarrow> getFearAndGreed (de_isoText env) (de_fear_greed env)
      | BtcDominance \<Rightarrow> getBTCDominance (de_global env)
      | FundingRates \<Rightarrow> getFundingRates (de_funding env)
      | OpenInterest \<Rightarrow> getOpenInterest (de_open_interest env)
      | StablecoinSupply \<Rightarrow> getStablecoinSupply (de_stablecoins env))"
  have s: "schema data = map (\<lambda>k. (k, [])) metric_keys"
    by (simp add: data_def schema_getFearAndGreed schema_getBTCDominance schema_getFundingRates
        schema_getOpenInterest schema_getStablecoinSupply split: metric_kind.splits)
  have k: "keys data = metric_keys"
    by (simp add: keys_schema s comp_def)
  have "schema (spread data [(''dayOfWeek'', JNum (real (getUTCDay (de_now env)))),
                             (''updated'', JStr (de_updated env))]) =
        map (\<lambda>k. (k, [])) (metric_keys @ [''dayOfWeek'', ''updated''])"
    by (simp add: schema_set_prop_new keys_set_prop_new k s metric_keys_def)
  then show ?thesis
    by (simp add: the_number_try_def Let_def data_def)
qed


lemma mood_fallback_response:
  "mood_try env = Inl msg \<Longrightarrow> mo_method env \<noteq> ''OPTIONS'' \<Longrightarrow>
   handler_market_mood env =
     \<lparr>status = 200, headers = mood_headers, body = Some (JObj (mood_fallback msg))\<rparr>"
  by (simp add: handler_market_mood_def)

lemma etf_mock_response:
  "upstream_failed (ee_flows env) \<Longrightarrow>
   handler_etf_flows env =
     \<lparr>status = 200, headers = etf_headers, body = Some (JObj (getMockData (ee_updated env)))\<rparr>"
  by (simp add: handler_etf_flows_def upstream_failed_def split: upstream.splits)

text \<open>
  C4, as stated, fails for the market snapshot. With an empty cache and the provider
  down its answer has no \<open>source\<close> field: it is marked \<open>fallback: true\<close>. And
  \<open>updatedTimestamp\<close>, not only \<open>updated\<close>, follows the clock.
\<close>

theorem market_fallback_marking:
  "body_prop ''source'' (res (handler_market_cache (ex_market_down 0) empty_cache)) = None
   \<and> body_prop ''fallback'' (res (handler_market_cache (ex_market_down 0) empty_cache)) =
        Some (JBool True)
   \<and> body_prop ''updatedTimestamp'' (res (handler_market_cache (ex_market_down 0) empty_cache)) =
        Some (JNum 0)
   \<and> body_prop ''updatedTimestamp'' (res (handler_market_cache (ex_market_down 5000) empty_cache)) =
        Some (JNum 5000)"
proof -
  have r: "res (handler_market_cache (ex_market_down t) empty_cache) =
     \<lparr>status = 200, headers = market_headers,
       body = Some (JObj (getFallbackData ''1970-01-01T00:05:01.000Z'' t))\<rparr>" for t
    using market_fallback_response [OF ex_market_down_fetch, of empty_cache t]
    by (simp add: empty_cache_def ex_market_down_def)
  show ?thesis
    by (simp add: r body_prop_def getFallbackData_def)
qed

text \<open>
  C4, amended. With an empty cache and a failing fetch the market snapshot answers
  200 with \<open>getFallbackData\<close>: fixed values but for \<open>updated\<close> and
  \<open>updatedTimestamp\<close>, no \<open>source\<close>, \<open>fallback\<close> true, and the schema of a fresh answer
  with the key \<open>fallback\<close> added. With the provider of the day failing the daily
  metric answers 200 with the fallback object of that day's fetcher, marked
  \<open>source = fallback\<close>, with \<open>dayOfWeek\<close> and \<open>updated\<close> added; every answer of that
  handler comes from its \<open>try\<close> block and has one schema. The market mood answers 200
  with its fixed object and the error text, and the ETF flows with the mock object,
  marked \<open>source = mock\<close>.
\<close>

theorem fallback_responses:
  "(market_fetch env = Inl msg \<and> c_data c = None \<longrightarrow>
      res (handler_market_cache env c) =
        \<lparr>status = 200, headers = market_headers,
          body = Some (JObj (getFallbackData (me_fallback_updated env) (me_fallback_now env)))\<rparr>)
   \<and> get_prop ''source'' (getFallbackData u n) = None
   \<and> get_prop ''fallback'' (getFallbackData u n) = Some (JBool True)
   \<and> (market_fetch env' = Inr (p, g) \<longrightarrow>
        schema (getFallbackData u n) =
        schema (spread (market_freshData p g u' n') [(''cached'', JBool False)]) @ [(''fallback'', [])])
   \<and> (daily_upstream_failed de \<longrightarrow>
        handler_the_number de =
          \<lparr>status = 200, headers = the_number_headers,
            body = Some (JObj (spread (fetcher_fallback (selector (getUTCDay (de_now de))))
                     [(''dayOfWeek'', JNum (real (getUTCDay (de_now de)))),
                      (''updated'', JStr (de_updated de))]))\<rparr>)
   \<and> get_prop ''source'' (fetcher_fallback kind) = Some (JStr ''fallback'')
   \<and> (\<exists>obj. the_number_try de' = Inr obj \<and>
         schema obj = map (\<lambda>k. (k, [])) (metric_keys @ [''dayOfWeek'', ''updated'']))
   \<and> (mood_try mo = Inl msg' \<and> mo_method mo \<noteq> ''OPTIONS'' \<longrightarrow>
        handler_market_mood mo =
          \<lparr>status = 200, headers = mood_headers, body = Some (JObj (mood_fallback msg'))\<rparr>)
   \<and> get_prop ''source'' (mood_fallback msg') = None
   \<and> (upstream_failed (ee_flows ee) \<longrightarrow>
        handler_etf_flows ee =
          \<lparr>status = 200, headers = etf_headers, body = Some (JObj (getMockData (ee_updated ee)))\<rparr>)
   \<and> get_prop ''source'' (getMockData u'') = Some (JStr ''mock'')"
proof -
  have a: "get_prop ''source'' (getFallbackData u n) = None"
    "get_prop ''fallback'' (getFallbackData u n) = Some (JBool True)"
    by (simp_all add: getFallbackData_def)
  have b: "get_prop ''source'' (mood_fallback msg') = None"
    "get_prop ''source'' (getMockData u'') = Some (JStr ''mock'')"
    by (simp_all add: mood_fallback_def getMockData_def)
  show ?thesis
    using a b market_fallback_response [of env msg c] market_fetch_schema [of env' p g u' n' u n]
      daily_fallback_response [of de] fetcher_fallback_source [of kind] the_number_schema [of de']
      mood_fallback_response [of mo msg'] etf_mock_response [of ee]
    by (intro conjI impI) (simp_all only: simp_thms)
qed

theorem fallback_responses_witness:
  "res (handler_market_cache (ex_market_down 0) empty_cache) =
     \<lparr>status = 200, headers = market_headers,
       body = Some (JObj (getFallbackData ''1970-01-01T00:05:01.000Z'' 0))\<rparr>
   \<and> handler_the_number ex_daily_tuesday_down =
     \<lparr>status = 200, headers = the_number_headers,
       body = Some (JObj (fallbackBTCDominance @
                [(''dayOfWeek'', JNum 2), (''updated'', JStr ''1970-01-06T00:00:00.000Z'')]))\<rparr>"
proof -
  have m: "market_fetch (ex_market_down 0) = Inl ''CoinGecko price API failed: 429'' \<and>
      c_data empty_cache = None"
    by (simp add: ex_market_down_fetch empty_cache_def)
  have day: "getUTCDay (de_now ex_daily_tuesday_down) = 2"
    by (simp add: getUTCDay_def ex_daily_tuesday_down_def)
  have d: "daily_upstream_failed ex_daily_tuesday_down"
    by (simp add: daily_upstream_failed_def day selector_def)
      (simp add: ex_daily_tuesday_down_def upstream_failed_def)
  note t = fallback_responses [of "ex_market_down 0" _ empty_cache _ _ _ _ _ _ _ ex_daily_tuesday_down]
  from t [THEN conjunct1, THEN mp, OF m]
    t [THEN conjunct2, THEN conjunct2, THEN conjunct2, THEN conjunct2, THEN conjunct1, THEN mp, OF d]
  show ?thesis
    by (simp add: day selector_def fallbackBTCDominance_def)
      (simp add: ex_market_down_def ex_daily_tuesday_down_def)
qed

subsection \<open>The podcast feed\<close>

lemma extractTag_channel_scope:
  "extractTag xml tagName True = extractTag (channel_part xml) tagName False"
  by (simp add: extractTag_def)

lemma split_acc_first:
  "\<exists>first more rest. split_acc sep acc s = first # more \<and> rev acc @ s = first @ rest \<and>
     (rest = [] \<or> starts_with sep rest)"
proof (induction sep acc s rule: split_acc.induct)
  case (1 sep acc)
  then show ?case by simp
next
  case (2 sep acc c cs)
  show ?case
  proof (cases "sep \<noteq> [] \<and> starts_with sep (c # cs)")
    case True
    then show ?thesis by auto
  next
    case False
    with 2 show ?thesis by auto
  qed
qed

lemma channel_part_prefix:
  "\<exists>rest. xml = channel_part xml @ rest \<and> (rest = [] \<or> starts_with ''<item>'' rest)"
  using split_acc_first [of "''<item>''" "[]" xml]
  by (auto simp: channel_part_def str_split_def)

text \<open>
  C9. \<open>extractTag\<close> reads a channel-level tag from the text before the first
  \<open><item>\<close>, but the image is read with \<open>extractAttribute\<close>, which has no such
  parameter and searches the whole document. For a feed whose channel has no image
  and whose item has one, the show's image is the item's, where the text before the
  first item holds none.
\<close>

theorem show_image_from_item:
  "parseShowMetadata ex_feed_xml =
     [(''title'', JStr ''Show''),
      (''description'', JStr []),
      (''image'', JStr ''e.jpg''),
      (''author'', JStr ''NLW''),
      (''links'', JObj
         [(''apple'', JStr ''https://podcasts.apple.com/us/podcast/the-breakdown/id1438693620''),
          (''spotify'', JStr ''https://open.spotify.com/show/538vuul1PuorUDwgkVYO6u''),
          (''website'', JStr ''https://blockworks.co/podcast/thebreakdown'')])]
   \<and> channel_part ex_feed_xml = ''<channel><title>Show</title>''
   \<and> extractAttribute (channel_part ex_feed_xml) ''itunes:image'' ''href'' = None"
  by code_simp

lemma parse_item_audio:
  assumes "parse_item pf item = Inr (Some ep)"
  shows "\<exists>u. get_prop ''audioUrl'' ep = Some (JStr u) \<and> u \<noteq> []"
  using assms
  by (auto simp: parse_item_def Let_def truthy_def str_json_def
      split: if_splits option.splits sum.splits)

lemma parse_items_audio:
  assumes "parse_items pf items = Inr eps" and "ep \<in> set eps"
  shows "\<exists>u. get_prop ''audioUrl'' ep = Some (JStr u) \<and> u \<noteq> []"
  using assms
proof (induction items arbitrary: eps)
  case Nil
  then show ?case by simp
next
  case (Cons item items)
  from Cons.prems(1) obtain e rest where e: "parse_item pf item = Inr e"
    and rest: "parse_items pf items = Inr rest"
    and eps: "eps = (case e of None \<Rightarrow> [] | Some x \<Rightarrow> [x]) @ rest"
    by (auto split: sum.splits)
  show ?case
  proof (cases "ep \<in> set rest")
    case True
    with Cons.IH rest show ?thesis by blast
  next
    case False
    with Cons.prems(2) eps have "e = Some ep"
      by (cases e) auto
    with e show ?thesis
      by (simp add: parse_item_audio)
  qed
qed

text \<open>
  C10. In every answer with status 200 the \<open>episodes\<close> array has at most 5 entries
  and each has an \<open>audioUrl\<close> that is a non-empty string: an item whose enclosure
  gives no URL is skipped.
\<close>

theorem episodes_have_audio:
  assumes "status (handler_breakdown env) = 200"
  shows "\<exists>obj eps. body (handler_breakdown env) = Some (JObj obj) \<and>
           get_prop ''episodes'' obj = Some (JArr (map JObj eps)) \<and>
           length eps \<le> 5 \<and>
           (\<forall>ep \<in> set eps. \<exists>u. get_prop ''audioUrl'' ep = Some (JStr u) \<and> u \<noteq> [])"
proof -
  from assms obtain obj where obj: "breakdown_try env = Inr obj"
    by (cases "breakdown_try env") (auto simp: handler_breakdown_def)
  then obtain xml all_eps where xml: "bd_feed env = Body xml"
    and all_eps: "parseRSS (bd_platform env) xml = Inr all_eps"
    and o: "obj = [(''success'', JBool True),
                   (''lastUpdated'', JStr (bd_lastUpdated env)),
                   (''show'', JObj (parseShowMetadata xml)),
                   (''episodes'', JArr (map JObj (take 5 all_eps))),
                   (''latest'', JNum 0)]"
    by (auto simp: breakdown_try_def Let_def split: upstream.splits sum.splits)
  have audio: "\<exists>u. get_prop ''audioUrl'' ep = Some (JStr u) \<and> u \<noteq> []"
    if "ep \<in> set (take 5 all_eps)" for ep
  proof -
    from that have "ep \<in> set all_eps"
      by (rule in_set_takeD)
    with all_eps show ?thesis
      unfolding parseRSS_def by (rule parse_items_audio)
  qed
  have "body (handler_breakdown env) = Some (JObj obj)"
    by (simp add: handler_breakdown_def obj)
  moreover have "get_prop ''episodes'' obj = Some (JArr (map JObj (take 5 all_eps)))"
    by (simp add: o)
  moreover have "length (take 5 all_eps) \<le> 5"
    by simp
  ultimately show ?thesis
    using audio by blast
qed

lemma ex_feed_audio_episodes:
  "parseRSS ex_platform ex_feed_audio =
     Inr [[(''id'', JStr ''untitled-episode''),
           (''title'', JStr ''Untitled Episode''),
           (''pubDate'', JNull),
           (''pubDateISO'', JNull),
           (''durationRaw'', JNull),
           (''durationSec'', JNum 0),
           (''durationFormatted'', JStr []),
           (''audioUrl'', JStr ''e.mp3''),
           (''imageUrl'', JNull),
           (''summary'', JStr [])]]"
  by code_simp

theorem episodes_have_audio_witness:
  "status (handler_breakdown ex_feed_ok) = 200
   \<and> body_prop ''episodes'' (handler_breakdown ex_feed_ok) =
       Some (JArr [JObj [(''id'', JStr ''untitled-episode''),
           (''title'', JStr ''Untitled Episode''),
           (''pubDate'', JNull),
           (''pubDateISO'', JNull),
           (''durationRaw'', JNull),
           (''durationSec'', JNum 0),
           (''durationFormatted'', JStr []),
           (''audioUrl'', JStr ''e.mp3''),
           (''imageUrl'', JNull),
           (''summary'', JStr [])]])
   \<and> (\<exists>obj eps. body (handler_breakdown ex_feed_ok) = Some (JObj obj) \<and>
           get_prop ''episodes'' obj = Some (JArr (map JObj eps)) \<and>
           length eps \<le> 5 \<and>
           (\<forall>ep \<in> set eps. \<exists>u. get_prop ''audioUrl'' ep = Some (JStr u) \<and> u \<noteq> []))"
proof -
  have t: "breakdown_try ex_feed_ok = Inr
     [(''success'', JBool True),
      (''lastUpdated'', JStr ''1970-01-01T00:00:00.000Z''),
      (''show'', JObj (parseShowMetadata ex_feed_audio)),
      (''episodes'', JArr [JObj [(''id'', JStr ''untitled-episode''),
           (''title'', JStr ''Untitled Episode''),
           (''pubDate'', JNull),
           (''pubDateISO'', JNull),
           (''durationRaw'', JNull),
           (''durationSec'', JNum 0),
           (''durationFormatted'', JStr []),
           (''audioUrl'', JStr ''e.mp3''),
           (''imageUrl'', JNull),
           (''summary'', JStr [])]]),
      (''latest'', JNum 0)]"
    by (simp add: breakdown_try_def ex_feed_ok_def ex_feed_audio_episodes Let_def)
  have st: "status (handler_breakdown ex_feed_ok) = 200"
    by (simp add: handler_breakdown_def t)
  have b: "body_prop ''episodes'' (handler_breakdown ex_feed_ok) =
       Some (JArr [JObj [(''id'', JStr ''untitled-episode''),
           (''title'', JStr ''Untitled Episode''),
           (''pubDate'', JNull),
           (''pubDateISO'', JNull),
           (''durationRaw'', JNull),
           (''durationSec'', JNum 0),
           (''durationFormatted'', JStr []),
           (''audioUrl'', JStr ''e.mp3''),
           (''imageUrl'', JNull),
           (''summary'', JStr [])]])"
    by (simp add: handler_breakdown_def t body_prop_def)
  from st b episodes_have_audio [OF st] show ?thesis
    by blast
qed

end
